theory Spec2Isabelle
  imports Complex_Main "HOL-Library.Word" "HOL-Library.Sublist"
begin

section \<open>Exceptions and outcomes of framework calls\<close>

text \<open>
  The script \<^verbatim>\<open>train_model_cuda.py\<close> is a sequence of top-level statements, almost all of
  them calls into TensorFlow/Keras, NumPy, \<^verbatim>\<open>os\<close> and \<^verbatim>\<open>tensorflowjs\<close>. A call either
  returns a value or raises an exception. The exception classes below are the ones the
  three \<^verbatim>\<open>try\<close> statements of the script tell apart, with Python's built-in subclassing:
  \<^verbatim>\<open>NotImplementedError\<close> is a \<^verbatim>\<open>RuntimeError\<close>, \<^verbatim>\<open>ModuleNotFoundError\<close> is an
  \<^verbatim>\<open>ImportError\<close>, and all of them are instances of \<^verbatim>\<open>Exception\<close>. Asynchronous
  interruption and interpreter exit (\<^verbatim>\<open>KeyboardInterrupt\<close>, \<^verbatim>\<open>SystemExit\<close>), which are
  not raised by a call failing, are outside the model.
\<close>

datatype exn_class =
    RuntimeError | NotImplementedError
  | ImportError | ModuleNotFoundError
  | ValueError | IndexError | OSError | InternalError

datatype exn = Exn (cls: exn_class) (msg: string)

datatype 'a outcome = Returns 'a | Raises exn

fun is_RuntimeError :: "exn \<Rightarrow> bool" where
  "is_RuntimeError (Exn c m) = (c = RuntimeError \<or> c = NotImplementedError)"

fun is_ImportError :: "exn \<Rightarrow> bool" where
  "is_ImportError (Exn c m) = (c = ImportError \<or> c = ModuleNotFoundError)"

section \<open>Preprocessing (lines 45--55)\<close>

text \<open>
  The loader returns the images as an array of unsigned bytes of shape \<open>(n, 28, 28)\<close> and
  the labels as an array of unsigned bytes of shape \<open>(n)\<close>. Arrays are nested lists.
  A \<^verbatim>\<open>float32\<close> value is the rational number it denotes.
\<close>

type_synonym u8_images = "8 word list list list"
type_synonym f32_images = "rat list list list list"

text \<open>
  \<^verbatim>\<open>x.astype('float32') / 255.0\<close>: the byte is converted exactly, and the quotient is the
  IEEE single-precision division, the exact quotient rounded to 24 significant bits,
  ties to even. For \<open>0 < n \<le> d\<close> the significand of \<open>n / d\<close> is scaled by
  \<open>2 ^ (23 + binade n d)\<close>, where \<open>binade n d\<close> is the number of doublings that
  bring \<open>n\<close> up to \<open>d\<close>.
\<close>

definition round_half_even :: "rat \<Rightarrow> int" where
  "round_half_even q =
     (let f = \<lfloor>q\<rfloor>; r = q - of_int f
      in if r < 1 / 2 then f
         else if 1 / 2 < r then f + 1
         else if even f then f else f + 1)"

function binade :: "nat \<Rightarrow> nat \<Rightarrow> nat" where
  "binade n d = (if n = 0 \<or> d \<le> n then 0 else Suc (binade (2 * n) d))"
  by pat_completeness auto
termination
  by (relation "measure (\<lambda>(n, d). d - n)") auto

definition f32_div :: "nat \<Rightarrow> nat \<Rightarrow> rat" where
  "f32_div n d =
     (let s = 2 ^ (23 + binade n d)
      in of_int (round_half_even (of_nat n * s / of_nat d)) / s)"

definition normalize_pixel :: "8 word \<Rightarrow> rat" where
  "normalize_pixel p = f32_div (unat p) 255"

definition normalize :: "u8_images \<Rightarrow> rat list list list" where
  "normalize x = map (map (map normalize_pixel)) x"

text \<open>\<^verbatim>\<open>np.expand_dims(x, -1)\<close>: every scalar becomes a one-element innermost axis.\<close>

definition expand_dims_last :: "rat list list list \<Rightarrow> f32_images" where
  "expand_dims_last x = map (map (map (\<lambda>v. [v]))) x"

text \<open>
  \<^verbatim>\<open>keras.utils.to_categorical(y, 10)\<close>: a zero matrix with one row per label, in which
  entry \<open>(i, y[i])\<close> is set to 1. An index outside the row raises \<^verbatim>\<open>IndexError\<close>
  (labels are unsigned, so no index is negative).
\<close>

definition one_hot :: "nat \<Rightarrow> nat \<Rightarrow> rat list" where
  "one_hot num_classes y = (replicate num_classes 0)[y := 1]"

definition to_categorical :: "8 word list \<Rightarrow> nat \<Rightarrow> rat list list outcome" where
  "to_categorical y num_classes =
     (if \<forall>l \<in> set y. unat l < num_classes
      then Returns (map (\<lambda>l. one_hot num_classes (unat l)) y)
      else Raises (Exn IndexError ''index out of bounds''))"

section \<open>Network topology (lines 57--119)\<close>

datatype activation = relu | softmax

datatype padding = same | valid

datatype layer =
    Input "nat list"
  | RandomRotation rat
  | RandomZoom rat
  | RandomTranslation rat rat
  | Sequential "layer list"
  | Conv2D nat "nat \<times> nat" activation padding
  | BatchNormalization
  | MaxPooling2D "nat \<times> nat"
  | Dropout rat
  | Flatten
  | Dense nat activation

text \<open>The argument of \<^verbatim>\<open>keras.Sequential\<close> at lines 60--64.\<close>

definition augmentation_layers :: "layer list" where
  "augmentation_layers =
     [RandomRotation (1 / 10), RandomZoom (1 / 10), RandomTranslation (1 / 10) (1 / 10)]"

text \<open>The argument of \<^verbatim>\<open>layers.extend\<close> at lines 85--117.\<close>

definition convolutional_blocks :: "layer list" where
  "convolutional_blocks =
     [Conv2D 32 (3, 3) relu same, BatchNormalization,
      Conv2D 32 (3, 3) relu same, BatchNormalization,
      MaxPooling2D (2, 2), Dropout (1 / 4),
      Conv2D 64 (3, 3) relu same, BatchNormalization,
      Conv2D 64 (3, 3) relu same, BatchNormalization,
      MaxPooling2D (2, 2), Dropout (1 / 4),
      Conv2D 128 (3, 3) relu same, BatchNormalization,
      MaxPooling2D (2, 2), Dropout (1 / 4),
      Flatten,
      Dense 256 relu, BatchNormalization, Dropout (1 / 2),
      Dense 128 relu, BatchNormalization, Dropout (1 / 2),
      Dense 10 softmax]"

text \<open>
  Lines 75--117: the list starts with the input layer, the augmentation model is appended
  when \<^verbatim>\<open>use_augmentation and data_augmentation is not None\<close>, and the convolutional
  blocks follow.
\<close>

definition build_layers :: "bool \<Rightarrow> layer option \<Rightarrow> layer list" where
  "build_layers use_aug aug =
     (let layers0 = [Input [28, 28, 1]];
          layers1 = (case aug of
                       Some a \<Rightarrow> if use_aug then layers0 @ [a] else layers0
                     | None \<Rightarrow> layers0)
      in layers1 @ convolutional_blocks)"

text \<open>
  The shape a layer produces from the shape it receives, as Keras infers it: a
  convolution with padding \<^verbatim>\<open>same\<close> and stride 1 keeps height and width and sets the
  channels; with padding \<^verbatim>\<open>valid\<close> it loses \<open>kernel - 1\<close>; pooling with the default
  stride divides height and width by the pool size, rounding down; the other layers
  keep the shape. A layer applied to a shape of the wrong rank is rejected.
\<close>

fun output_shape :: "layer \<Rightarrow> nat list \<Rightarrow> nat list option"
  and output_shapes :: "layer list \<Rightarrow> nat list \<Rightarrow> nat list option" where
  "output_shape (Input shp) sh = (if sh = shp then Some shp else None)"
| "output_shape (RandomRotation f) sh = Some sh"
| "output_shape (RandomZoom f) sh = Some sh"
| "output_shape (RandomTranslation h w) sh = Some sh"
| "output_shape (Sequential ls) sh = output_shapes ls sh"
| "output_shape (Conv2D filters k act pad) sh =
     (case sh of
        [h, w, c] \<Rightarrow>
          (case pad of
             same \<Rightarrow> Some [h, w, filters]
           | valid \<Rightarrow> if fst k \<le> h \<and> snd k \<le> w
                      then Some [h + 1 - fst k, w + 1 - snd k, filters] else None)
      | _ \<Rightarrow> None)"
| "output_shape BatchNormalization sh = Some sh"
| "output_shape (MaxPooling2D p) sh =
     (case sh of
        [h, w, c] \<Rightarrow> if 0 < fst p \<and> 0 < snd p then Some [h div fst p, w div snd p, c] else None
      | _ \<Rightarrow> None)"
| "output_shape (Dropout r) sh = Some sh"
| "output_shape Flatten sh = Some [prod_list sh]"
| "output_shape (Dense units act) sh =
     (case sh of [] \<Rightarrow> None | _ \<Rightarrow> Some (butlast sh @ [units]))"
| "output_shapes [] sh = Some sh"
| "output_shapes (l # ls) sh =
     (case output_shape l sh of None \<Rightarrow> None | Some sh' \<Rightarrow> output_shapes ls sh')"

record compile_config =
  learning_rate :: rat
  loss :: string
  metrics :: "string list"

record model =
  arch :: "layer list"
  compiled :: "compile_config option"
  weights :: nat

section \<open>Callbacks and the training loop (lines 129--164)\<close>

datatype callback =
    ReduceLROnPlateau string rat nat rat
  | EarlyStopping string nat bool
  | ModelCheckpoint string string bool

text \<open>The list at lines 130--150 (the \<^verbatim>\<open>verbose\<close> flags only affect Keras' own log).\<close>

definition callbacks :: "callback list" where
  "callbacks =
     [ReduceLROnPlateau ''val_loss'' (1 / 2) 3 (1 / 100000),
      EarlyStopping ''val_accuracy'' 8 True,
      ModelCheckpoint ''best_mnist_model.h5'' ''val_accuracy'' True]"

text \<open>What one epoch of training reports: the weights it leaves and the validation metrics.\<close>

record epoch_logs =
  new_weights :: nat
  val_loss :: rat
  val_accuracy :: rat

definition monitored :: "string \<Rightarrow> epoch_logs \<Rightarrow> rat option" where
  "monitored name logs =
     (if name = ''val_loss'' then Some (val_loss logs)
      else if name = ''val_accuracy'' then Some (val_accuracy logs)
      else None)"

text \<open>
  Keras' mode \<^verbatim>\<open>auto\<close>: a monitored accuracy improves when it is greater than
  the best so far, any other quantity when it is smaller (by more than \<open>min_delta\<close>). The
  best so far starts at minus or plus infinity, here \<open>None\<close>.
\<close>

definition improved :: "string \<Rightarrow> rat \<Rightarrow> rat \<Rightarrow> rat option \<Rightarrow> bool" where
  "improved name min_delta current best =
     (case best of
        None \<Rightarrow> True
      | Some b \<Rightarrow> if name = ''val_accuracy'' then b < current - min_delta
                  else current < b - min_delta)"

datatype fsnode = H5 model | Directory | ModelJson model | WeightShard model

datatype line = Text string | Fmt string "rat list"

datatype call =
    ListPhysicalDevices
  | SetMemoryGrowth string
  | SetVisibleDevices "string list"
  | LoadData
  | Normalize
  | ExpandDims
  | ToCategorical
  | NewAugmentation
  | NewSequential "layer list"
  | Compile
  | Summary
  | Fit
  | Evaluate nat
  | LoadModel string
  | Makedirs string
  | Save string
  | ImportTfjs
  | SaveKerasModel string

text \<open>
  What the script does not determine is the environment of a run: the command line, the
  files present, and what each framework call returns or raises.
\<close>

record environment =
  argv :: "string list"
  initial_fs :: "string \<rightharpoonup> fsnode"
  list_physical_devices :: "string list outcome"
  set_memory_growth :: "string \<Rightarrow> unit outcome"
  set_visible_devices :: "unit outcome"
  load_data :: "((u8_images \<times> 8 word list) \<times> (u8_images \<times> 8 word list)) outcome"
  new_augmentation :: "unit outcome"
  new_sequential :: "nat outcome"
  compile_result :: "unit outcome"
  summary_result :: "unit outcome"
  train_epoch :: "nat \<Rightarrow> rat \<Rightarrow> nat \<Rightarrow> epoch_logs outcome"
  evaluate :: "nat \<Rightarrow> (rat \<times> rat) outcome"
  load_model_result :: "unit outcome"
  makedirs_result :: "unit outcome"
  save_result :: "unit outcome"
  import_tfjs :: "unit outcome"
  save_keras_model :: "string list \<times> unit outcome"

text \<open>
  The state of a run: the module's global variables, and the effects so far. \<open>status\<close> is
  \<open>None\<close> while the script runs and holds the exception once one has propagated to the top
  level, which ends the process. The loader's arrays keep the names \<open>x_train_u8\<close>, ...;
  Python rebinds \<^verbatim>\<open>x_train\<close>, ... to the preprocessed arrays.
\<close>

record state =
  status :: "exn option"
  stdout :: "line list"
  trace :: "call list"
  fs :: "string \<rightharpoonup> fsnode"
  files_written :: "string list"
  checkpoint_epochs :: "nat list"
  environ :: "(string \<times> string) list"
  gpus :: "string list"
  x_train_u8 :: u8_images
  y_train_u8 :: "8 word list"
  x_test_u8 :: u8_images
  y_test_u8 :: "8 word list"
  x_train :: f32_images
  y_train :: "rat list list"
  x_test :: f32_images
  y_test :: "rat list list"
  data_augmentation :: "layer option"
  use_augmentation :: bool
  layers :: "layer list"
  model :: model
  history :: "epoch_logs list"
  test_loss :: rat
  test_acc :: rat

definition print :: "line \<Rightarrow> state \<Rightarrow> state" where
  "print l s = s\<lparr>stdout := stdout s @ [l]\<rparr>"

definition called :: "call \<Rightarrow> state \<Rightarrow> state" where
  "called c s = s\<lparr>trace := trace s @ [c]\<rparr>"

definition raise :: "exn \<Rightarrow> state \<Rightarrow> state" where
  "raise e s = s\<lparr>status := Some e\<rparr>"

definition write_file :: "string \<Rightarrow> fsnode \<Rightarrow> state \<Rightarrow> state" where
  "write_file path f s = s\<lparr>fs := (fs s)(path \<mapsto> f), files_written := files_written s @ [path]\<rparr>"

text \<open>
  State of the three callbacks during \<^verbatim>\<open>fit\<close>, and the optimizer's learning rate.
\<close>

record fit_state =
  lr :: rat
  rl_best :: "rat option"
  rl_wait :: nat
  es_best :: "rat option"
  es_wait :: nat
  es_best_weights :: "nat option"
  mc_best :: "rat option"
  stop_training :: bool

definition set_weights :: "nat \<Rightarrow> state \<Rightarrow> state" where
  "set_weights w s = s\<lparr>model := (model s)\<lparr>weights := w\<rparr>\<rparr>"

text \<open>
  \<^verbatim>\<open>on_epoch_end\<close> of each callback. \<^verbatim>\<open>ReduceLROnPlateau\<close> (no cooldown, \<open>min_delta\<close>
  \<open>0.0001\<close>) halves the learning rate, not below \<open>min_lr\<close>, once the monitored loss has
  not improved for \<open>patience\<close> epochs. \<^verbatim>\<open>EarlyStopping\<close> counts the epochs without
  improvement and, after \<open>patience\<close> of them and not in the first epoch, stops the training
  and puts the best weights back. \<^verbatim>\<open>ModelCheckpoint\<close> with \<^verbatim>\<open>save_best_only\<close> saves
  the model to its path when the monitored quantity has improved, and at every epoch
  without that flag.
\<close>

fun callback_epoch_end ::
  "callback \<Rightarrow> nat \<Rightarrow> epoch_logs \<Rightarrow> state \<times> fit_state \<Rightarrow> state \<times> fit_state" where
  "callback_epoch_end (ReduceLROnPlateau mon factor patience min_lr) epoch logs (s, f) =
     (case monitored mon logs of
        None \<Rightarrow> (s, f)
      | Some current \<Rightarrow>
          if improved mon (1 / 10000) current (rl_best f)
          then (s, f\<lparr>rl_best := Some current, rl_wait := 0\<rparr>)
          else if patience \<le> rl_wait f + 1 \<and> min_lr < lr f
          then (s, f\<lparr>lr := max (lr f * factor) min_lr, rl_wait := 0\<rparr>)
          else (s, f\<lparr>rl_wait := rl_wait f + 1\<rparr>))"
| "callback_epoch_end (EarlyStopping mon patience restore) epoch logs (s, f) =
     (case monitored mon logs of
        None \<Rightarrow> (s, f)
      | Some current \<Rightarrow>
          let f0 = (if restore \<and> es_best_weights f = None
                    then f\<lparr>es_best_weights := Some (weights (model s))\<rparr> else f);
              f1 = (if improved mon 0 current (es_best f0)
                    then f0\<lparr>es_best := Some current, es_wait := 0,
                            es_best_weights := (if restore then Some (weights (model s))
                                                else es_best_weights f0)\<rparr>
                    else f0\<lparr>es_wait := es_wait f0 + 1\<rparr>)
          in if patience \<le> es_wait f1 \<and> 0 < epoch
             then ((case es_best_weights f1 of
                      Some w \<Rightarrow> if restore then set_weights w s else s
                    | None \<Rightarrow> s),
                   f1\<lparr>stop_training := True\<rparr>)
             else (s, f1))"
| "callback_epoch_end (ModelCheckpoint path mon save_best_only) epoch logs (s, f) =
     (if save_best_only
      then (case monitored mon logs of
              None \<Rightarrow> (s, f)
            | Some current \<Rightarrow>
                if improved mon 0 current (mc_best f)
                then ((write_file path (H5 (model s)) s)
                        \<lparr>checkpoint_epochs := checkpoint_epochs s @ [epoch]\<rparr>,
                      f\<lparr>mc_best := Some current\<rparr>)
                else (s, f))
      else ((write_file path (H5 (model s)) s)
              \<lparr>checkpoint_epochs := checkpoint_epochs s @ [epoch]\<rparr>, f))"

text \<open>
  \<^verbatim>\<open>model.fit\<close>: at most \<open>epochs\<close> epochs; each trains (the environment gives the result
  of training epoch \<open>epoch\<close> at the current learning rate from the current weights, or an
  exception), records the epoch's metrics in the history that \<^verbatim>\<open>fit\<close> returns, then runs
  the callbacks in list order, and the loop ends when a callback has set
  \<^verbatim>\<open>stop_training\<close>.
\<close>

fun fit_epochs ::
  "environment \<Rightarrow> callback list \<Rightarrow> nat \<Rightarrow> nat \<Rightarrow> state \<times> fit_state \<Rightarrow> state" where
  "fit_epochs env cbs 0 epoch (s, f) = s"
| "fit_epochs env cbs (Suc n) epoch (s, f) =
     (case train_epoch env epoch (lr f) (weights (model s)) of
        Raises e \<Rightarrow> raise e s
      | Returns logs \<Rightarrow>
          (case foldl (\<lambda>sf cb. callback_epoch_end cb epoch logs sf)
                  (set_weights (new_weights logs) (s\<lparr>history := history s @ [logs]\<rparr>), f) cbs of
             (s', f') \<Rightarrow>
               if stop_training f' then s' else fit_epochs env cbs n (Suc epoch) (s', f')))"

section \<open>The script, statement by statement\<close>

text \<open>
  Each definition below is one block of top-level statements. The glyphs that open some
  printed lines are not ASCII and are left out of the text; a line with formatted
  numbers is the format string and the numbers.
\<close>

text \<open>Lines 24--25, the loop over the detected GPUs; the exception, if any, is returned.\<close>

fun memory_growth_loop :: "environment \<Rightarrow> string list \<Rightarrow> state \<Rightarrow> state \<times> exn option" where
  "memory_growth_loop env [] s = (s, None)"
| "memory_growth_loop env (gpu # rest) s =
     (case set_memory_growth env gpu of
        Raises e \<Rightarrow> (called (SetMemoryGrowth gpu) s, Some e)
      | Returns u \<Rightarrow> memory_growth_loop env rest (called (SetMemoryGrowth gpu) s))"

text \<open>Lines 20--39.\<close>

definition configure_gpu :: "environment \<Rightarrow> state \<Rightarrow> state" where
  "configure_gpu env s =
     (case list_physical_devices env of
        Raises e \<Rightarrow> raise e (called ListPhysicalDevices s)
      | Returns gs \<Rightarrow>
          let s1 = (called ListPhysicalDevices s)\<lparr>gpus := gs\<rparr>
          in if gs \<noteq> [] then
               (case memory_growth_loop env gs s1 of
                  (s2, None) \<Rightarrow>
                    print (Text (''  GPU: '' @ hd gs))
                      (print (Fmt ''Found {} GPU(s)'' [of_nat (length gs)])
                        (s2\<lparr>environ := environ s2 @
                               [(''TF_ENABLE_ONEDNN_OPTS'', ''0''),
                                (''TF_CPP_MIN_LOG_LEVEL'', ''2'')]\<rparr>))
                | (s2, Some e) \<Rightarrow>
                    if is_RuntimeError e then
                      (let s3 = called (SetVisibleDevices [])
                                  (print (Text ''  Falling back to CPU...'')
                                    (print (Text (''GPU configuration error: '' @ msg e)) s2))
                       in case set_visible_devices env of
                            Raises e' \<Rightarrow> raise e' s3
                          | Returns u \<Rightarrow> s3)
                    else raise e s2)
             else print (Text ''No GPU found - training will be slow on CPU'') s1)"

text \<open>Lines 41--43.\<close>

definition load_dataset :: "environment \<Rightarrow> state \<Rightarrow> state" where
  "load_dataset env s =
     (let s1 = called LoadData (print (Text ''Loading MNIST dataset...'') s)
      in case load_data env of
           Raises e \<Rightarrow> raise e s1
         | Returns ((xtr, ytr), (xte, yte)) \<Rightarrow>
             s1\<lparr>x_train_u8 := xtr, y_train_u8 := ytr, x_test_u8 := xte, y_test_u8 := yte\<rparr>)"

text \<open>Lines 45--55.\<close>

definition preprocess :: "state \<Rightarrow> state" where
  "preprocess s =
     (let s1 = (called ExpandDims (called ExpandDims (called Normalize (called Normalize s))))
                 \<lparr>x_train := expand_dims_last (normalize (x_train_u8 s)),
                  x_test := expand_dims_last (normalize (x_test_u8 s))\<rparr>;
          s2 = called ToCategorical s1
      in case to_categorical (y_train_u8 s) 10 of
           Raises e \<Rightarrow> raise e s2
         | Returns ytr \<Rightarrow>
             (let s3 = called ToCategorical (s2\<lparr>y_train := ytr\<rparr>)
              in (case to_categorical (y_test_u8 s) 10 of
                    Raises e \<Rightarrow> raise e s3
                  | Returns yte \<Rightarrow> s3\<lparr>y_test := yte\<rparr>)))"

text \<open>Lines 57--71. Every exception is an \<^verbatim>\<open>Exception\<close>, so the handler takes them all.\<close>

definition build_augmentation :: "environment \<Rightarrow> state \<Rightarrow> state" where
  "build_augmentation env s =
     (let s1 = called NewAugmentation s
      in case new_augmentation env of
           Returns u \<Rightarrow>
             print (Text ''Data augmentation enabled'')
               (s1\<lparr>data_augmentation := Some (Sequential augmentation_layers),
                   use_augmentation := True\<rparr>)
         | Raises e \<Rightarrow>
             (print (Text ''  Training without augmentation...'')
               (print (Text (''Data augmentation failed: '' @ msg e)) s1))
               \<lparr>data_augmentation := None, use_augmentation := False\<rparr>)"

text \<open>Lines 73--119.\<close>

definition create_model :: "environment \<Rightarrow> state \<Rightarrow> state" where
  "create_model env s =
     (let ls = build_layers (use_augmentation s) (data_augmentation s);
          s1 = called (NewSequential ls)
                 ((print (Text ''Creating improved CNN model...'') s)\<lparr>layers := ls\<rparr>)
      in case new_sequential env of
           Raises e \<Rightarrow> raise e s1
         | Returns w0 \<Rightarrow> s1\<lparr>model := \<lparr>arch = ls, compiled = None, weights = w0\<rparr>\<rparr>)"

text \<open>Lines 121--127.\<close>

definition compile_model :: "environment \<Rightarrow> state \<Rightarrow> state" where
  "compile_model env s =
     (let s1 = called Compile s
      in case compile_result env of
           Raises e \<Rightarrow> raise e s1
         | Returns u \<Rightarrow>
             (let s2 = called Summary
                         (s1\<lparr>model := (model s1)\<lparr>compiled :=
                                Some \<lparr>learning_rate = 1 / 1000,
                                      loss = ''categorical_crossentropy'',
                                      metrics = [''accuracy'']\<rparr>\<rparr>\<rparr>)
              in (case summary_result env of
                    Raises e \<Rightarrow> raise e s2
                  | Returns u \<Rightarrow> s2)))"

definition banner :: string where
  "banner = replicate 60 CHR ''=''"

text \<open>
  Lines 152--164. A model that was not compiled cannot be fitted; the script has compiled
  it two statements before.
\<close>

definition train :: "environment \<Rightarrow> state \<Rightarrow> state" where
  "train env s =
     (let s1 = called Fit
                 (print (Text banner)
                   (print (Text ''Training model (this may take 10-20 minutes on GPU)...'')
                     (print (Text banner) s)))
      in case compiled (model s1) of
           None \<Rightarrow> raise (Exn RuntimeError ''You must compile your model before training'') s1
         | Some c \<Rightarrow>
             fit_epochs env callbacks 30 0
               (s1, \<lparr>lr = learning_rate c, rl_best = None, rl_wait = 0,
                     es_best = None, es_wait = 0, es_best_weights = None,
                     mc_best = None, stop_training = False\<rparr>))"

text \<open>
  \<^verbatim>\<open>keras.models.load_model(path)\<close> reads the model a previous save left at the path.
\<close>

definition load_model :: "environment \<Rightarrow> string \<Rightarrow> state \<Rightarrow> state" where
  "load_model env path s =
     (let s1 = called (LoadModel path) s
      in case load_model_result env of
           Raises e \<Rightarrow> raise e s1
         | Returns u \<Rightarrow>
             (case fs s1 path of
                Some (H5 m) \<Rightarrow> s1\<lparr>model := m\<rparr>
              | _ \<Rightarrow> raise (Exn OSError (''No file or directory found at '' @ path)) s1))"

definition evaluate_test :: "environment \<Rightarrow> state \<Rightarrow> state" where
  "evaluate_test env s =
     (let s1 = called (Evaluate (weights (model s))) s
      in case evaluate env (weights (model s)) of
           Raises e \<Rightarrow> raise e s1
         | Returns (l, a) \<Rightarrow> s1\<lparr>test_loss := l, test_acc := a\<rparr>)"

text \<open>Lines 166--177.\<close>

definition evaluate_model :: "environment \<Rightarrow> state \<Rightarrow> state" where
  "evaluate_model env s =
     (let s1 = evaluate_test env
                 (print (Text banner) (print (Text ''Evaluating model...'') (print (Text banner) s)))
      in if status s1 \<noteq> None then s1
         else
           let s2 = load_model env ''best_mnist_model.h5''
                      (print (Fmt ''Test loss: {:.4f}'' [test_loss s1])
                        (print (Fmt ''Test accuracy: {:.4f} ({:.2f}%)''
                                  [test_acc s1, test_acc s1 * 100]) s1))
           in if status s2 \<noteq> None then s2
              else
                let s3 = evaluate_test env s2
                in if status s3 \<noteq> None then s3
                   else print (Fmt ''Best model accuracy: {:.4f} ({:.2f}%)''
                                 [test_acc s3, test_acc s3 * 100]) s3)"

text \<open>Lines 179--183.\<close>

definition save_model :: "environment \<Rightarrow> state \<Rightarrow> state" where
  "save_model env s =
     (let s1 = called (Makedirs ''models'') (print (Text ''Saving model in h5 format...'') s)
      in case makedirs_result env of
           Raises e \<Rightarrow> raise e s1
         | Returns u \<Rightarrow>
             (let s2 = called (Save ''models/mnist_model.h5'')
                         (case fs s1 ''models'' of
                            None \<Rightarrow> s1\<lparr>fs := (fs s1)(''models'' \<mapsto> Directory)\<rparr>
                          | Some d \<Rightarrow> s1)
              in (case save_result env of
                    Raises e \<Rightarrow> raise e s2
                  | Returns u \<Rightarrow>
                      print (Text ''Model saved to models/mnist_model.h5'')
                        (write_file ''models/mnist_model.h5'' (H5 (model s2)) s2))))"

text \<open>
  \<^verbatim>\<open>tfjs.converters.save_keras_model(model, dir)\<close> writes the manifest \<^verbatim>\<open>model.json\<close>
  and the weight shards into the directory. The environment gives the names of the shards
  it gets to write, and whether it then returns or raises.
\<close>

fun write_shards :: "string \<Rightarrow> model \<Rightarrow> string list \<Rightarrow> state \<Rightarrow> state" where
  "write_shards dir m [] s = s"
| "write_shards dir m (n # ns) s =
     write_shards dir m ns (write_file (dir @ ''/'' @ n) (WeightShard m) s)"

definition tfjs_save_keras_model :: "environment \<Rightarrow> string \<Rightarrow> state \<Rightarrow> state \<times> exn option" where
  "tfjs_save_keras_model env dir s =
     (let s1 = called (SaveKerasModel dir) s
      in case save_keras_model env of
           (shards, Raises e) \<Rightarrow> (write_shards dir (model s1) shards s1, Some e)
         | (shards, Returns u) \<Rightarrow>
             (write_file (dir @ ''/model.json'') (ModelJson (model s1))
                (write_shards dir (model s1) shards s1), None))"

text \<open>Lines 194--206, the two handlers of the conversion.\<close>

definition conversion_failed :: "exn \<Rightarrow> state \<Rightarrow> state" where
  "conversion_failed e s =
     (if is_ImportError e then
        print (Text ''  tensorflowjs_converter --input_format keras models/mnist_model.h5 static/model'')
          (print (Text ''As a workaround, you can convert manually later:'')
            (print (Text ''Try: pip install tensorflowjs'')
              (print (Text ''tensorflowjs not found.'') s)))
      else
        print (Text ''  models/mnist_model.h5'')
          (print (Text ''Or use the saved model file directly:'')
            (print (Text ''  tensorflowjs_converter --input_format keras models/mnist_model.h5 static/model'')
              (print (Text ''You can convert manually later with:'')
                (print (Text (''Conversion failed: '' @ msg e)) s)))))"

text \<open>Lines 185--206.\<close>

definition convert_model :: "environment \<Rightarrow> state \<Rightarrow> state" where
  "convert_model env s =
     (let s1 = called ImportTfjs (print (Text ''Converting to TensorFlow.js format...'') s)
      in case import_tfjs env of
           Raises e \<Rightarrow> conversion_failed e s1
         | Returns u \<Rightarrow>
             (case tfjs_save_keras_model env ''static/model'' s1 of
                (s2, Some e) \<Rightarrow> conversion_failed e s2
              | (s2, None) \<Rightarrow>
                  print (Text ''Model saved to static/model/'')
                    (print (Text ''Model converted successfully'') s2)))"

text \<open>Lines 208--219.\<close>

definition report :: "state \<Rightarrow> state" where
  "report s =
     foldl (\<lambda>s l. print l s) s
       [Text banner, Text ''TRAINING COMPLETE!'', Text banner,
        Fmt ''Final accuracy: {:.2f}%'' [test_acc s * 100],
        Text ''Files created:'',
        Text ''  - models/mnist_model.h5'',
        Text ''  - static/model/model.json'',
        Text ''  - static/model/group*.bin'',
        Text ''Next steps:'',
        Text ''  1. Copy the entire 'static/model/' directory to your local machine'',
        Text ''  2. Place it in the project's static/model/ folder'',
        Text ''  3. Run 'npm run dev' to test the model'']"

text \<open>
  Statements run in order; an exception that no handler takes ends the run where it is.
\<close>

fun run_stages :: "(state \<Rightarrow> state) list \<Rightarrow> state \<Rightarrow> state" where
  "run_stages [] s = s"
| "run_stages (stage # rest) s =
     (let s' = stage s in if status s' = None then run_stages rest s' else s')"

definition initial_state :: "environment \<Rightarrow> state" where
  "initial_state env =
     \<lparr>status = None, stdout = [], trace = [], fs = initial_fs env, files_written = [],
      checkpoint_epochs = [], environ = [], gpus = [],
      x_train_u8 = [], y_train_u8 = [], x_test_u8 = [], y_test_u8 = [],
      x_train = [], y_train = [], x_test = [], y_test = [],
      data_augmentation = None, use_augmentation = False, layers = [],
      model = \<lparr>arch = [], compiled = None, weights = 0\<rparr>, history = [],
      test_loss = 0, test_acc = 0\<rparr>"

definition script :: "environment \<Rightarrow> (state \<Rightarrow> state) list" where
  "script env =
     [configure_gpu env, load_dataset env, preprocess, build_augmentation env,
      create_model env, compile_model env, train env, evaluate_model env,
      save_model env, convert_model env, report]"

definition main :: "environment \<Rightarrow> state" where
  "main env = run_stages (script env) (initial_state env)"

section \<open>Predicates and example runs used in the statements\<close>

definition shape_28_28 :: "8 word list list \<Rightarrow> bool" where
  "shape_28_28 raw = (length raw = 28 \<and> (\<forall>row \<in> set raw. length row = 28))"

definition shape_28_28_1 :: "rat list list list \<Rightarrow> bool" where
  "shape_28_28_1 img =
     (length img = 28 \<and>
      (\<forall>row \<in> set img. length row = 28 \<and> (\<forall>px \<in> set row. length px = 1)))"

definition pixels_in_unit_interval :: "rat list list list \<Rightarrow> bool" where
  "pixels_in_unit_interval img =
     (\<forall>row \<in> set img. \<forall>px \<in> set row. \<forall>v \<in> set px. 0 \<le> v \<and> v \<le> 1)"

definition is_one_hot :: "nat \<Rightarrow> rat list \<Rightarrow> bool" where
  "is_one_hot y v = (length v = 10 \<and> v ! y = 1 \<and> (\<forall>j < 10. j \<noteq> y \<longrightarrow> v ! j = 0))"

text \<open>
  The stage of the pipeline a framework call belongs to. Device configuration comes before
  the stages of the pipeline proper; constructing the augmentation model and the network
  are both building; reloading the best checkpoint and evaluating it again are part of the
  evaluation, which lies between fitting and saving.
\<close>

datatype stage =
  S_setup | S_load | S_preprocess | S_build | S_compile | S_fit | S_evaluate | S_save | S_convert

fun stage_of :: "call \<Rightarrow> stage" where
  "stage_of ListPhysicalDevices = S_setup"
| "stage_of (SetMemoryGrowth g) = S_setup"
| "stage_of (SetVisibleDevices gs) = S_setup"
| "stage_of LoadData = S_load"
| "stage_of Normalize = S_preprocess"
| "stage_of ExpandDims = S_preprocess"
| "stage_of ToCategorical = S_preprocess"
| "stage_of NewAugmentation = S_build"
| "stage_of (NewSequential ls) = S_build"
| "stage_of Compile = S_compile"
| "stage_of Summary = S_compile"
| "stage_of Fit = S_fit"
| "stage_of (Evaluate w) = S_evaluate"
| "stage_of (LoadModel p) = S_evaluate"
| "stage_of (Makedirs p) = S_save"
| "stage_of (Save p) = S_save"
| "stage_of ImportTfjs = S_convert"
| "stage_of (SaveKerasModel p) = S_convert"

text \<open>The stages in the order a trace enters them.\<close>

definition stages_entered :: "call list \<Rightarrow> stage list" where
  "stages_entered tr = remdups_adj (map stage_of tr)"

text \<open>The states between the blocks of statements, while no exception has propagated.\<close>

definition after_setup :: "environment \<Rightarrow> state" where
  "after_setup env = configure_gpu env (initial_state env)"

definition after_load :: "environment \<Rightarrow> state" where
  "after_load env = load_dataset env (after_setup env)"

definition after_preprocess :: "environment \<Rightarrow> state" where
  "after_preprocess env = preprocess (after_load env)"

definition after_augmentation :: "environment \<Rightarrow> state" where
  "after_augmentation env = build_augmentation env (after_preprocess env)"

definition after_create :: "environment \<Rightarrow> state" where
  "after_create env = create_model env (after_augmentation env)"

definition after_compile :: "environment \<Rightarrow> state" where
  "after_compile env = compile_model env (after_create env)"

definition after_fit :: "environment \<Rightarrow> state" where
  "after_fit env = train env (after_compile env)"

definition after_evaluate :: "environment \<Rightarrow> state" where
  "after_evaluate env = evaluate_model env (after_fit env)"

definition after_save :: "environment \<Rightarrow> state" where
  "after_save env = save_model env (after_evaluate env)"

definition after_convert :: "environment \<Rightarrow> state" where
  "after_convert env = convert_model env (after_save env)"

text \<open>
  Vocabulary for the checkpoint. An epoch improves when its validation accuracy is
  greater than that of every earlier epoch of the history; \<open>record_epochs\<close> lists those
  epochs, and \<open>best_accuracy\<close> is the greatest validation accuracy of a history.
  \<open>checkpoint_ok\<close> says that the checkpoint was written at exactly the improving epochs
  and that, once an epoch has run, the checkpoint file holds the model with the weights
  of the last improving epoch.
\<close>

definition improves_at :: "epoch_logs list \<Rightarrow> nat \<Rightarrow> bool" where
  "improves_at h k = (\<forall>a \<in> set (take k (map val_accuracy h)). a < val_accuracy (h ! k))"

definition record_epochs :: "epoch_logs list \<Rightarrow> nat list" where
  "record_epochs h = filter (improves_at h) [0..<length h]"

definition best_accuracy :: "epoch_logs list \<Rightarrow> rat option" where
  "best_accuracy h = (if h = [] then None else Some (Max (set (map val_accuracy h))))"

definition checkpoint_ok :: "state \<Rightarrow> bool" where
  "checkpoint_ok s =
     (checkpoint_epochs s = record_epochs (history s) \<and>
      (history s = [] \<or>
       fs s ''best_mnist_model.h5''
         = Some (H5 ((model s)\<lparr>weights := new_weights (history s ! last (checkpoint_epochs s))\<rparr>))))"

definition fit_inv :: "nat \<Rightarrow> state \<Rightarrow> fit_state \<Rightarrow> bool" where
  "fit_inv epoch s f =
     (length (history s) = epoch \<and> checkpoint_ok s \<and>
      es_best f = best_accuracy (history s) \<and> mc_best f = best_accuracy (history s))"

definition fit_frame :: "state \<Rightarrow> state \<Rightarrow> bool" where
  "fit_frame s s' =
     ((\<exists>w. model s' = (model s)\<lparr>weights := w\<rparr>) \<and>
      (\<forall>p. p = ''best_mnist_model.h5'' \<or> fs s' p = fs s p) \<and>
      (\<exists>k. files_written s' = files_written s @ replicate k ''best_mnist_model.h5'' \<and>
           length (checkpoint_epochs s') = length (checkpoint_epochs s) + k) \<and>
      trace s' = trace s \<and> stdout s' = stdout s)"

definition same_files :: "state \<Rightarrow> state \<Rightarrow> bool" where
  "same_files s s' =
     (files_written s' = files_written s \<and> checkpoint_epochs s' = checkpoint_epochs s \<and>
      history s' = history s \<and> fs s' = fs s)"

definition emits :: "stage \<Rightarrow> state \<Rightarrow> state \<Rightarrow> bool" where
  "emits X s s' = (\<exists>cs. trace s' = trace s @ cs \<and> cs \<noteq> [] \<and> list_all (\<lambda>c. stage_of c = X) cs)"

definition enter :: "stage \<Rightarrow> stage list \<Rightarrow> stage list" where
  "enter X xs = (if xs \<noteq> [] \<and> last xs = X then xs else xs @ [X])"


text \<open>
  The files the conversion block writes: nothing when the import fails; otherwise the
  weight shards the converter gets to write, and the manifest when it returns.
\<close>

definition web_files :: "environment \<Rightarrow> string list" where
  "web_files env =
     (case import_tfjs env of
        Raises e \<Rightarrow> []
      | Returns u \<Rightarrow>
          map (\<lambda>n. ''static/model/'' @ n) (fst (save_keras_model env)) @
            (case snd (save_keras_model env) of
               Raises e \<Rightarrow> []
             | Returns u \<Rightarrow> [''static/model/model.json'']))"

text \<open>
  A run in which every call returns: one GPU, a data set of one black training image
  labelled 3 and one white test image labelled 7, a validation accuracy that rises for
  three epochs and then stays below its best, and one weight shard.
\<close>

definition example_env :: environment where
  "example_env =
     \<lparr>argv = [], initial_fs = Map.empty,
      list_physical_devices = Returns [''GPU:0''],
      set_memory_growth = (\<lambda>g. Returns ()),
      set_visible_devices = Returns (),
      load_data = Returns (([replicate 28 (replicate 28 0)], [3]),
                           ([replicate 28 (replicate 28 255)], [7])),
      new_augmentation = Returns (),
      new_sequential = Returns 0,
      compile_result = Returns (),
      summary_result = Returns (),
      train_epoch = (\<lambda>epoch l w.
         Returns \<lparr>new_weights = Suc epoch, val_loss = 1 / 10,
                  val_accuracy = (if epoch \<le> 2 then of_nat (90 + epoch) / 100 else 9 / 10)\<rparr>),
      evaluate = (\<lambda>w. Returns (1 / 10, 9 / 10)),
      load_model_result = Returns (),
      makedirs_result = Returns (),
      save_result = Returns (),
      import_tfjs = Returns (),
      save_keras_model = ([''group1-shard1of1.bin''], Returns ())\<rparr>"

definition example_loaded :: state where
  "example_loaded = load_dataset example_env (initial_state example_env)"

text \<open>
  Variants of the example run: the converter module is missing; the conversion raises
  after writing one shard; constructing the augmentation model raises; enabling memory
  growth raises \<^verbatim>\<open>RuntimeError\<close> and the fallback call returns; and the same with the
  fallback call raising as well.
\<close>

definition env_no_tfjs :: environment where
  "env_no_tfjs =
     example_env\<lparr>import_tfjs := Raises (Exn ModuleNotFoundError ''No module named tensorflowjs'')\<rparr>"

definition env_conversion_error :: environment where
  "env_conversion_error =
     example_env\<lparr>save_keras_model :=
       ([''group1-shard1of1.bin''], Raises (Exn ValueError ''Unsupported layer''))\<rparr>"

definition env_no_augmentation :: environment where
  "env_no_augmentation =
     example_env\<lparr>new_augmentation := Raises (Exn InternalError ''CUDA error'')\<rparr>"



text \<open>
  What the last layer computes, over the reals: a dense layer of \<open>units\<close> units has one
  weight row and one bias per unit, forms each unit's weighted sum of the input plus its
  bias, and applies the activation to the vector of sums; \<^verbatim>\<open>softmax\<close> divides the
  exponential of each entry by the sum of the exponentials, \<^verbatim>\<open>relu\<close> cuts each entry
  off at zero.
\<close>

fun activate :: "activation \<Rightarrow> real list \<Rightarrow> real list" where
  "activate relu z = map (max 0) z"
| "activate softmax z = map (\<lambda>v. exp v / sum_list (map exp z)) z"

fun layer_output :: "layer \<Rightarrow> real list list \<Rightarrow> real list \<Rightarrow> real list \<Rightarrow> real list option" where
  "layer_output (Dense units act) rows biases x =
     (if length rows = units \<and> length biases = units
      then Some (activate act (map2 (\<lambda>row b. sum_list (map2 (*) row x) + b) rows biases))
      else None)"
| "layer_output l rows biases x = None"

definition is_distribution :: "real list \<Rightarrow> bool" where
  "is_distribution y = (list_all (\<lambda>v. 0 \<le> v) y \<and> sum_list y = 1)"


section \<open>Properties\<close>

lemma round_half_even_nonneg: "0 \<le> q \<Longrightarrow> 0 \<le> round_half_even q"
  by (auto simp: round_half_even_def Let_def)

lemma round_half_even_le:
  assumes "q \<le> of_int n"
  shows "round_half_even q \<le> n"
proof -
  have fl: "\<lfloor>q\<rfloor> \<le> n" using assms by (simp add: floor_le_iff)
  show ?thesis
  proof (cases "\<lfloor>q\<rfloor> = n")
    case True
    then have "q = of_int n" using assms by (metis order_antisym of_int_floor_le)
    then show ?thesis by (simp add: round_half_even_def)
  next
    case False
    then have "\<lfloor>q\<rfloor> + 1 \<le> n" using fl by simp
    then show ?thesis using fl by (auto simp: round_half_even_def Let_def)
  qed
qed

lemma f32_div_range:
  assumes "n \<le> d" and "0 < d"
  shows "0 \<le> f32_div n d \<and> f32_div n d \<le> 1"
proof -
  define k :: nat where "k = 2 ^ (23 + binade n d)"
  define s :: rat where "s = 2 ^ (23 + binade n d)"
  have sk: "s = of_int (int k)" by (simp add: s_def k_def)
  have spos: "0 < s" by (simp add: s_def)
  define q :: rat where "q = of_nat n * s / of_nat d"
  have q0: "0 \<le> q" using spos by (simp add: q_def)
  have "of_nat n * s \<le> (of_nat d :: rat) * s"
    using assms(1) spos by (simp add: mult_right_mono)
  then have "q \<le> s"
    using assms(2) by (simp add: q_def pos_divide_le_eq mult.commute)
  then have "q \<le> of_int (int k)" by (simp only: sk)
  then have up: "round_half_even q \<le> int k" by (rule round_half_even_le)
  have lo: "0 \<le> round_half_even q" using q0 by (rule round_half_even_nonneg)
  have eq: "f32_div n d = of_int (round_half_even q) / s"
    by (simp add: f32_div_def q_def s_def Let_def)
  have "(of_int (round_half_even q) :: rat) \<le> of_int (int k)"
    using up by (simp only: of_int_le_iff)
  then have "(of_int (round_half_even q) :: rat) / s \<le> 1"
    using spos by (simp add: pos_divide_le_eq sk)
  moreover have "0 \<le> (of_int (round_half_even q) :: rat) / s"
    using lo spos by simp
  ultimately show ?thesis by (simp add: eq)
qed

lemma normalize_pixel_range: "0 \<le> normalize_pixel p \<and> normalize_pixel p \<le> 1"
proof -
  have "unat p < 2 ^ 8" using unsigned_less [of p] by simp
  then have "unat p \<le> 255" by simp
  then show ?thesis unfolding normalize_pixel_def by (intro f32_div_range) simp_all
qed


subsection \<open>Preprocessed images\<close>

lemma x_train_preprocess:
  "x_train (preprocess s) = map (map (map (\<lambda>p. [normalize_pixel p]))) (x_train_u8 s)"
  by (simp add: preprocess_def called_def raise_def Let_def expand_dims_last_def normalize_def
      split: outcome.splits)

lemma x_test_preprocess:
  "x_test (preprocess s) = map (map (map (\<lambda>p. [normalize_pixel p]))) (x_test_u8 s)"
  by (simp add: preprocess_def called_def raise_def Let_def expand_dims_last_def normalize_def
      split: outcome.splits)

lemma channel_image_range:
  "pixels_in_unit_interval (map (map (\<lambda>p. [normalize_pixel p])) raw)"
  by (auto simp: pixels_in_unit_interval_def normalize_pixel_range)

lemma channel_image_shape:
  "shape_28_28 raw \<Longrightarrow> shape_28_28_1 (map (map (\<lambda>p. [normalize_pixel p])) raw)"
  by (auto simp: shape_28_28_def shape_28_28_1_def)

lemma example_loaded_fields:
  "x_train_u8 example_loaded = [replicate 28 (replicate 28 0)]"
  "x_test_u8 example_loaded = [replicate 28 (replicate 28 255)]"
  "y_train_u8 example_loaded = [3]"
  "y_test_u8 example_loaded = [7]"
  by (simp_all add: example_loaded_def load_dataset_def example_env_def Let_def called_def
      print_def)

text \<open>
  C7. After the preprocessing statements, every training and test image is the loaded
  image with each byte \<open>p\<close> replaced by the one-element channel holding the
  single-precision quotient \<open>p / 255\<close>; every pixel value lies in \<open>[0, 1]\<close>; and, the
  loader's images being 28 by 28, every image has shape \<open>(28, 28, 1)\<close>.
\<close>

theorem preprocess_images:
  assumes "\<forall>raw \<in> set (x_train_u8 s) \<union> set (x_test_u8 s). shape_28_28 raw"
  shows "x_train (preprocess s) = map (map (map (\<lambda>p. [f32_div (unat p) 255]))) (x_train_u8 s)
       \<and> x_test (preprocess s) = map (map (map (\<lambda>p. [f32_div (unat p) 255]))) (x_test_u8 s)
       \<and> (\<forall>img \<in> set (x_train (preprocess s)) \<union> set (x_test (preprocess s)).
            pixels_in_unit_interval img \<and> shape_28_28_1 img)"
proof -
  have eq: "(\<lambda>p. [f32_div (unat p) 255]) = (\<lambda>p. [normalize_pixel p])"
    by (simp add: normalize_pixel_def)
  show ?thesis
    using assms unfolding eq
    by (auto simp: x_train_preprocess x_test_preprocess channel_image_range channel_image_shape)
qed

theorem preprocess_images_witness:
  "list_all shape_28_28 (x_train_u8 example_loaded @ x_test_u8 example_loaded)
   \<and> list_all (\<lambda>img. pixels_in_unit_interval img \<and> shape_28_28_1 img)
         (x_train (preprocess example_loaded) @ x_test (preprocess example_loaded))
   \<and> length (x_train (preprocess example_loaded)) = 1
   \<and> hd (hd (hd (x_test (preprocess example_loaded)))) = [1]"
proof -
  have h: "\<forall>raw \<in> set (x_train_u8 example_loaded) \<union> set (x_test_u8 example_loaded).
             shape_28_28 raw"
    by (simp add: example_loaded_fields shape_28_28_def)
  have one: "f32_div (unat (255 :: 8 word)) 255 = 1"
    by code_simp
  from preprocess_images [OF h] h one show ?thesis
    by (simp add: list_all_iff example_loaded_fields)
qed

subsection \<open>One-hot labels\<close>

lemma one_hot_is_one_hot: "y < 10 \<Longrightarrow> is_one_hot y (one_hot 10 y)"
  by (simp add: is_one_hot_def one_hot_def)

lemma to_categorical_returns:
  "\<forall>l \<in> set y. unat l \<le> 9 \<Longrightarrow>
     to_categorical y 10 = Returns (map (\<lambda>l. one_hot 10 (unat l)) y)"
  by (auto simp: to_categorical_def)

lemma preprocess_labels:
  assumes "\<forall>l \<in> set (y_train_u8 s) \<union> set (y_test_u8 s). unat l \<le> 9"
  shows "status (preprocess s) = status s"
    and "y_train (preprocess s) = map (\<lambda>l. one_hot 10 (unat l)) (y_train_u8 s)"
    and "y_test (preprocess s) = map (\<lambda>l. one_hot 10 (unat l)) (y_test_u8 s)"
  using assms
  by (simp_all add: preprocess_def called_def Let_def to_categorical_returns)

text \<open>
  C8. When the labels loaded for training and test lie in \<open>0..9\<close>, both conversions
  return, and row \<open>i\<close> of each result is a vector of length 10 with 1 at the index of
  label \<open>i\<close> and 0 at the nine other indices.
\<close>

theorem one_hot_labels:
  assumes "\<forall>l \<in> set (y_train_u8 s) \<union> set (y_test_u8 s). unat l \<le> 9"
  shows "status (preprocess s) = status s
       \<and> length (y_train (preprocess s)) = length (y_train_u8 s)
       \<and> length (y_test (preprocess s)) = length (y_test_u8 s)
       \<and> (\<forall>i < length (y_train_u8 s).
            is_one_hot (unat (y_train_u8 s ! i)) (y_train (preprocess s) ! i))
       \<and> (\<forall>i < length (y_test_u8 s).
            is_one_hot (unat (y_test_u8 s ! i)) (y_test (preprocess s) ! i))"
proof -
  have lt: "unat l < 10" if "l \<in> set (y_train_u8 s) \<union> set (y_test_u8 s)" for l
  proof -
    have "unat l \<le> 9" using assms that by blast
    then show ?thesis by simp
  qed
  have tr: "\<forall>i < length (y_train_u8 s). unat (y_train_u8 s ! i) < 10" by (simp add: lt)
  have te: "\<forall>i < length (y_test_u8 s). unat (y_test_u8 s ! i) < 10" by (simp add: lt)
  show ?thesis
    using tr te by (simp add: preprocess_labels [OF assms] one_hot_is_one_hot)
qed

theorem one_hot_labels_witness:
  "list_all (\<lambda>l. unat l \<le> 9) (y_train_u8 example_loaded @ y_test_u8 example_loaded)
   \<and> status (preprocess example_loaded) = status example_loaded
   \<and> y_train (preprocess example_loaded) ! 0 = [0, 0, 0, 1, 0, 0, 0, 0, 0, 0]
   \<and> is_one_hot 3 (y_train (preprocess example_loaded) ! 0)
   \<and> is_one_hot 7 (y_test (preprocess example_loaded) ! 0)"
proof -
  have h: "\<forall>l \<in> set (y_train_u8 example_loaded) \<union> set (y_test_u8 example_loaded). unat l \<le> 9"
    by (simp add: example_loaded_fields)
  have "one_hot 10 (unat (3 :: 8 word)) = [0, 0, 0, 1, 0, 0, 0, 0, 0, 0]"
    by code_simp
  then have row: "y_train (preprocess example_loaded) ! 0 = [0, 0, 0, 1, 0, 0, 0, 0, 0, 0]"
    by (simp only: preprocess_labels(2) [OF h] example_loaded_fields list.map nth_Cons_0)
  from one_hot_labels [OF h] h row show ?thesis
    by (simp add: example_loaded_fields list_all_iff)
qed

subsection \<open>Topology of the built model\<close>

lemma build_layers_cases:
  "build_layers u a = Input [28, 28, 1] # convolutional_blocks
     \<or> (u \<and> a \<noteq> None \<and> build_layers u a = Input [28, 28, 1] # the a # convolutional_blocks)"
  by (simp add: build_layers_def Let_def split: option.splits)

lemma plain_output_shape:
  "output_shapes (Input [28, 28, 1] # convolutional_blocks) [28, 28, 1] = Some [10]"
  by (simp add: convolutional_blocks_def)

lemma augmented_output_shape:
  "output_shapes (Input [28, 28, 1] # Sequential augmentation_layers # convolutional_blocks)
     [28, 28, 1] = Some [10]"
  by (simp add: convolutional_blocks_def augmentation_layers_def)

lemma layers_after_create:
  "layers (create_model env (build_augmentation env' s))
     = (case new_augmentation env' of
          Returns u \<Rightarrow> Input [28, 28, 1] # Sequential augmentation_layers # convolutional_blocks
        | Raises e \<Rightarrow> Input [28, 28, 1] # convolutional_blocks)"
  by (simp add: create_model_def build_augmentation_def build_layers_def Let_def called_def
      print_def raise_def split: outcome.splits)

lemma trace_after_create:
  "last (trace (create_model env s)) = NewSequential (layers (create_model env s))"
  by (simp add: create_model_def Let_def called_def print_def raise_def split: outcome.splits)

lemma layer_list_topology:
  "(layers (create_model env (build_augmentation env s))
      = Input [28, 28, 1] # convolutional_blocks
    \<or> layers (create_model env (build_augmentation env s))
      = Input [28, 28, 1] # Sequential augmentation_layers # convolutional_blocks)
   \<and> hd (layers (create_model env (build_augmentation env s))) = Input [28, 28, 1]
   \<and> last (layers (create_model env (build_augmentation env s))) = Dense 10 softmax
   \<and> output_shapes (layers (create_model env (build_augmentation env s))) [28, 28, 1] = Some [10]
   \<and> last (trace (create_model env (build_augmentation env s)))
       = NewSequential (layers (create_model env (build_augmentation env s)))"
proof -
  define ls where "ls = layers (create_model env (build_augmentation env s))"
  have c: "ls = Input [28, 28, 1] # convolutional_blocks
         \<or> ls = Input [28, 28, 1] # Sequential augmentation_layers # convolutional_blocks"
    unfolding ls_def layers_after_create by (cases "new_augmentation env") simp_all
  have h: "hd ls = Input [28, 28, 1]"
    using c by auto
  have l: "last ls = Dense 10 softmax"
    using c by (auto simp: convolutional_blocks_def)
  have o: "output_shapes ls [28, 28, 1] = Some [10]"
    using c plain_output_shape augmented_output_shape by metis
  have t: "last (trace (create_model env (build_augmentation env s))) = NewSequential ls"
    unfolding ls_def by (rule trace_after_create)
  from c h l o t show ?thesis unfolding ls_def by blast
qed

subsection \<open>The run as a chain of states\<close>

lemma main_unfold:
  "main env =
     (if status (after_setup env) = None then
      if status (after_load env) = None then
      if status (after_preprocess env) = None then
      if status (after_augmentation env) = None then
      if status (after_create env) = None then
      if status (after_compile env) = None then
      if status (after_fit env) = None then
      if status (after_evaluate env) = None then
      if status (after_save env) = None then
      if status (after_convert env) = None then report (after_convert env)
      else after_convert env
      else after_save env
      else after_evaluate env
      else after_fit env
      else after_compile env
      else after_create env
      else after_augmentation env
      else after_preprocess env
      else after_load env
      else after_setup env)"
  apply (simp only: main_def script_def)
  apply (simp only: run_stages.simps)
  apply (simp only: Let_def)
  apply (simp only: after_setup_def [symmetric])
  apply (simp only: after_load_def [symmetric])
  apply (simp only: after_preprocess_def [symmetric])
  apply (simp only: after_augmentation_def [symmetric])
  apply (simp only: after_create_def [symmetric])
  apply (simp only: after_compile_def [symmetric])
  apply (simp only: after_fit_def [symmetric])
  apply (simp only: after_evaluate_def [symmetric])
  apply (simp only: after_save_def [symmetric])
  apply (simp only: after_convert_def [symmetric])
  apply (simp only: if_cancel)
  done

lemma main_completed:
  assumes "status (main env) = None"
  shows "main env = report (after_convert env)"
    and "status (after_setup env) = None"
    and "status (after_load env) = None"
    and "status (after_preprocess env) = None"
    and "status (after_augmentation env) = None"
    and "status (after_create env) = None"
    and "status (after_compile env) = None"
    and "status (after_fit env) = None"
    and "status (after_evaluate env) = None"
    and "status (after_save env) = None"
    and "status (after_convert env) = None"
  using assms unfolding main_unfold by (simp_all split: if_splits)

subsection \<open>Callbacks and the training loop\<close>

lemmas prim_defs = print_def called_def raise_def write_file_def set_weights_def

lemma callback_trace:
  "trace (fst (callback_epoch_end cb epoch logs (s, f))) = trace s"
  by (cases cb) (auto simp: prim_defs Let_def split: option.splits)

lemma callback_status:
  "status (fst (callback_epoch_end cb epoch logs (s, f))) = status s"
  by (cases cb) (auto simp: prim_defs Let_def split: option.splits)

lemma callbacks_trace:
  "trace (fst (foldl (\<lambda>sf cb. callback_epoch_end cb epoch logs sf) (s, f) cbs)) = trace s"
proof (induction cbs arbitrary: s f)
  case Nil
  show ?case by simp
next
  case (Cons cb cbs)
  obtain s1 f1 where st: "callback_epoch_end cb epoch logs (s, f) = (s1, f1)"
    by (cases "callback_epoch_end cb epoch logs (s, f)")
  have "trace s1 = trace s" using callback_trace [of cb epoch logs s f] st by simp
  then show ?case using Cons.IH [of s1 f1] st by simp
qed

lemma callbacks_status:
  "status (fst (foldl (\<lambda>sf cb. callback_epoch_end cb epoch logs sf) (s, f) cbs)) = status s"
proof (induction cbs arbitrary: s f)
  case Nil
  show ?case by simp
next
  case (Cons cb cbs)
  obtain s1 f1 where st: "callback_epoch_end cb epoch logs (s, f) = (s1, f1)"
    by (cases "callback_epoch_end cb epoch logs (s, f)")
  have "status s1 = status s" using callback_status [of cb epoch logs s f] st by simp
  then show ?case using Cons.IH [of s1 f1] st by simp
qed

lemma fit_epochs_trace:
  "trace (fit_epochs env cbs n epoch (s, f)) = trace s"
proof (induction n arbitrary: epoch s f)
  case 0
  show ?case by simp
next
  case (Suc n)
  show ?case
  proof (cases "train_epoch env epoch (lr f) (weights (model s))")
    case (Raises e)
    then show ?thesis by (simp add: raise_def)
  next
    case (Returns logs)
    obtain s' f' where st:
      "foldl (\<lambda>sf cb. callback_epoch_end cb epoch logs sf)
         (set_weights (new_weights logs) (s\<lparr>history := history s @ [logs]\<rparr>), f) cbs = (s', f')"
      by (cases "foldl (\<lambda>sf cb. callback_epoch_end cb epoch logs sf)
         (set_weights (new_weights logs) (s\<lparr>history := history s @ [logs]\<rparr>), f) cbs")
    have "trace s' = trace s"
      using callbacks_trace [of epoch logs "set_weights (new_weights logs) (s\<lparr>history := history s @ [logs]\<rparr>)" f cbs] st
      by (simp add: set_weights_def)
    then show ?thesis using Returns st Suc.IH [of "Suc epoch" s' f'] by simp
  qed
qed

lemma epoch_end_callbacks:
  assumes "es_best f = mc_best f"
    and "foldl (\<lambda>sf cb. callback_epoch_end cb epoch logs sf) (s, f) callbacks = (s', f')"
  shows "(if improved ''val_accuracy'' 0 (val_accuracy logs) (mc_best f)
          then s' = (write_file ''best_mnist_model.h5'' (H5 (model s)) s)
                      \<lparr>checkpoint_epochs := checkpoint_epochs s @ [epoch]\<rparr>
             \<and> mc_best f' = Some (val_accuracy logs)
          else (s' = s \<or> (\<exists>w. s' = set_weights w s)) \<and> mc_best f' = mc_best f)
         \<and> es_best f' = mc_best f'"
  using assms
  by (auto simp: callbacks_def monitored_def Let_def split: if_splits option.splits)

lemma best_accuracy_snoc:
  "best_accuracy (h @ [x]) =
     Some (case best_accuracy h of None \<Rightarrow> val_accuracy x | Some b \<Rightarrow> max b (val_accuracy x))"
  by (auto simp: best_accuracy_def max.commute)

lemma improved_iff:
  "improved ''val_accuracy'' 0 (val_accuracy x) (best_accuracy h)
     = improves_at (h @ [x]) (length h)"
  by (auto simp: improved_def best_accuracy_def improves_at_def)

lemma improves_at_append:
  "k < length h \<Longrightarrow> improves_at (h @ [x]) k = improves_at h k"
  by (simp add: improves_at_def nth_append)

lemma record_epochs_snoc:
  "record_epochs (h @ [x]) =
     record_epochs h @
       (if improved ''val_accuracy'' 0 (val_accuracy x) (best_accuracy h) then [length h] else [])"
proof -
  have "filter (improves_at (h @ [x])) [0..<length h] = filter (improves_at h) [0..<length h]"
    by (rule filter_cong) (simp_all add: improves_at_append)
  then show ?thesis
    by (simp add: record_epochs_def improved_iff)
qed

lemma record_epochs_bound: "k \<in> set (record_epochs h) \<Longrightarrow> k < length h"
  by (simp add: record_epochs_def)

lemma record_epochs_nonempty: "h \<noteq> [] \<Longrightarrow> record_epochs h \<noteq> []"
proof -
  assume "h \<noteq> []"
  then have "0 \<in> set (record_epochs h)"
    by (simp add: record_epochs_def improves_at_def)
  then show ?thesis by auto
qed

lemma last_record_bound: "h \<noteq> [] \<Longrightarrow> last (record_epochs h) < length h"
  using record_epochs_bound [of "last (record_epochs h)" h] record_epochs_nonempty [of h]
  by simp

lemma fit_frame_refl: "fit_frame s s"
  unfolding fit_frame_def
  by (auto intro: exI [of _ "weights (model s)"] exI [of _ 0])

lemma fit_frame_trans:
  assumes "fit_frame s s'" and "fit_frame s' s''"
  shows "fit_frame s s''"
proof -
  from assms(1) obtain w k where
    a: "model s' = (model s)\<lparr>weights := w\<rparr>"
       "\<forall>p. p = ''best_mnist_model.h5'' \<or> fs s' p = fs s p"
       "files_written s' = files_written s @ replicate k ''best_mnist_model.h5''"
       "length (checkpoint_epochs s') = length (checkpoint_epochs s) + k"
       "trace s' = trace s" "stdout s' = stdout s"
    unfolding fit_frame_def by blast
  from assms(2) obtain w' k' where
    b: "model s'' = (model s')\<lparr>weights := w'\<rparr>"
       "\<forall>p. p = ''best_mnist_model.h5'' \<or> fs s'' p = fs s' p"
       "files_written s'' = files_written s' @ replicate k' ''best_mnist_model.h5''"
       "length (checkpoint_epochs s'') = length (checkpoint_epochs s') + k'"
       "trace s'' = trace s'" "stdout s'' = stdout s'"
    unfolding fit_frame_def by blast
  have m: "model s'' = (model s)\<lparr>weights := w'\<rparr>"
    using a(1) b(1) by simp
  have f: "\<forall>p. p = ''best_mnist_model.h5'' \<or> fs s'' p = fs s p"
    using a(2) b(2) by metis
  have w: "files_written s'' = files_written s @ replicate (k + k') ''best_mnist_model.h5''"
    using a(3) b(3) by (simp add: replicate_add)
  have c: "length (checkpoint_epochs s'') = length (checkpoint_epochs s) + (k + k')"
    using a(4) b(4) by simp
  show ?thesis
    unfolding fit_frame_def using m f w c a(5,6) b(5,6) by metis
qed

lemma fit_step:
  assumes inv: "fit_inv epoch s f"
    and st: "foldl (\<lambda>sf cb. callback_epoch_end cb epoch logs sf)
               (set_weights (new_weights logs) (s\<lparr>history := history s @ [logs]\<rparr>), f) callbacks
             = (s2, f2)"
  shows "fit_inv (Suc epoch) s2 f2" and "fit_frame s s2" and "status s2 = status s"
proof -
  define h where "h = history s"
  define s1 where "s1 = set_weights (new_weights logs) (s\<lparr>history := h @ [logs]\<rparr>)"
  have len: "length h = epoch" and ok: "checkpoint_ok s"
    and eb: "es_best f = best_accuracy h" and mb: "mc_best f = best_accuracy h"
    using inv by (simp_all add: fit_inv_def h_def)
  have st1: "foldl (\<lambda>sf cb. callback_epoch_end cb epoch logs sf) (s1, f) callbacks = (s2, f2)"
    using st by (simp add: s1_def h_def)
  have esmc: "es_best f = mc_best f" using eb mb by simp
  note step = epoch_end_callbacks [OF esmc st1]
  have m1: "model s1 = (model s)\<lparr>weights := new_weights logs\<rparr>"
    by (simp add: s1_def set_weights_def)
  show "status s2 = status s"
    using callbacks_status [of epoch logs s1 f callbacks] st1 by (simp add: s1_def set_weights_def)
  have "fit_inv (Suc epoch) s2 f2 \<and> fit_frame s s2"
  proof (cases "improved ''val_accuracy'' 0 (val_accuracy logs) (mc_best f)")
    case True
    then have s2: "s2 = (write_file ''best_mnist_model.h5'' (H5 (model s1)) s1)
                          \<lparr>checkpoint_epochs := checkpoint_epochs s1 @ [epoch]\<rparr>"
      and mc2: "mc_best f2 = Some (val_accuracy logs)" and es2: "es_best f2 = mc_best f2"
      using step by simp_all
    have imp: "improved ''val_accuracy'' 0 (val_accuracy logs) (best_accuracy h)"
      using True mb by simp
    have best: "best_accuracy (h @ [logs]) = Some (val_accuracy logs)"
      using imp by (auto simp: best_accuracy_snoc improved_def split: option.splits)
    have ce: "checkpoint_epochs s2 = record_epochs (h @ [logs])"
      using ok imp len
      by (simp add: s2 write_file_def s1_def set_weights_def checkpoint_ok_def h_def
          record_epochs_snoc)
    have nth: "(history s @ [logs]) ! epoch = logs"
      using len by (auto simp: h_def)
    have "checkpoint_ok s2"
      unfolding checkpoint_ok_def
      using imp len ok nth
      by (simp add: s2 write_file_def s1_def set_weights_def h_def checkpoint_ok_def
          record_epochs_snoc)
    then have a: "fit_inv (Suc epoch) s2 f2"
      using len best mc2 es2
      by (simp add: fit_inv_def s2 write_file_def s1_def set_weights_def)
    have "fit_frame s s2"
      unfolding fit_frame_def
      by (auto simp: s2 write_file_def s1_def set_weights_def
          intro: exI [of _ "new_weights logs"] exI [of _ "Suc 0"])
    with a show ?thesis by simp
  next
    case False
    then have s2: "s2 = s1 \<or> (\<exists>w. s2 = set_weights w s1)"
      and mc2: "mc_best f2 = mc_best f" and es2: "es_best f2 = mc_best f2"
      using step by simp_all
    have nimp: "\<not> improved ''val_accuracy'' 0 (val_accuracy logs) (best_accuracy h)"
      using False mb by simp
    then have hne: "h \<noteq> []"
      by (auto simp: improved_def best_accuracy_def)
    have best: "best_accuracy (h @ [logs]) = best_accuracy h"
      using nimp by (auto simp: best_accuracy_snoc improved_def split: option.splits)
    have lb: "last (record_epochs h) < length h" using hne by (rule last_record_bound)
    from s2 obtain w where s2': "s2 = set_weights w s1"
      by (auto simp: set_weights_def intro: that [of "weights (model s1)"])
    have "checkpoint_ok s2"
      unfolding checkpoint_ok_def
      using nimp ok hne lb
      by (simp add: s2' s1_def set_weights_def h_def checkpoint_ok_def record_epochs_snoc
          nth_append)
    then have a: "fit_inv (Suc epoch) s2 f2"
      using len best mc2 es2 mb
      by (simp add: fit_inv_def s2' s1_def set_weights_def)
    have "fit_frame s s2"
      unfolding fit_frame_def
      by (auto simp: s2' s1_def set_weights_def intro: exI [of _ w] exI [of _ 0])
    with a show ?thesis by simp
  qed
  then show "fit_inv (Suc epoch) s2 f2" and "fit_frame s s2" by simp_all
qed

lemma checkpoint_ok_raise: "checkpoint_ok (raise e s) = checkpoint_ok s"
  by (simp add: checkpoint_ok_def raise_def)

lemma fit_frame_raise: "fit_frame s (raise e s)"
  using fit_frame_refl [of s] by (simp add: fit_frame_def raise_def)

lemma raise_fields: "status (raise e s) = Some e" "history (raise e s) = history s"
  by (simp_all add: raise_def)

lemma fit_epochs_inv:
  assumes "fit_inv epoch s f"
  shows "checkpoint_ok (fit_epochs env callbacks n epoch (s, f))
       \<and> fit_frame s (fit_epochs env callbacks n epoch (s, f))
       \<and> length (history s) \<le> length (history (fit_epochs env callbacks n epoch (s, f)))
       \<and> (status s = None \<and> 0 < n \<and> status (fit_epochs env callbacks n epoch (s, f)) = None
            \<longrightarrow> history (fit_epochs env callbacks n epoch (s, f)) \<noteq> [])"
  using assms
proof (induction n arbitrary: epoch s f)
  case 0
  then show ?case by (simp add: fit_inv_def fit_frame_refl)
next
  case (Suc n)
  show ?case
  proof (cases "train_epoch env epoch (lr f) (weights (model s))")
    case (Raises e)
    then show ?thesis
      using Suc.prems by (simp add: checkpoint_ok_raise fit_frame_raise fit_inv_def raise_fields)
  next
    case (Returns logs)
    obtain s2 f2 where st:
      "foldl (\<lambda>sf cb. callback_epoch_end cb epoch logs sf)
         (set_weights (new_weights logs) (s\<lparr>history := history s @ [logs]\<rparr>), f) callbacks
       = (s2, f2)"
      by (cases "foldl (\<lambda>sf cb. callback_epoch_end cb epoch logs sf)
         (set_weights (new_weights logs) (s\<lparr>history := history s @ [logs]\<rparr>), f) callbacks")
    note step = fit_step [OF Suc.prems st]
    have l2: "length (history s2) = Suc (length (history s))"
      using step(1) Suc.prems by (simp add: fit_inv_def)
    show ?thesis
    proof (cases "stop_training f2")
      case True
      then have "fit_epochs env callbacks (Suc n) epoch (s, f) = s2"
        using Returns st by simp
      then show ?thesis using step l2 by (auto simp: fit_inv_def)
    next
      case False
      then have eq: "fit_epochs env callbacks (Suc n) epoch (s, f)
                     = fit_epochs env callbacks n (Suc epoch) (s2, f2)"
        using Returns st by simp
      note ih = Suc.IH [OF step(1)]
      have fr: "fit_frame s (fit_epochs env callbacks n (Suc epoch) (s2, f2))"
        using fit_frame_trans [OF step(2)] ih by blast
      have le: "Suc (length (history s))
                  \<le> length (history (fit_epochs env callbacks n (Suc epoch) (s2, f2)))"
        using ih l2 by simp
      then have "history (fit_epochs env callbacks n (Suc epoch) (s2, f2)) \<noteq> []"
        by auto
      then show ?thesis
        unfolding eq using ih fr le by simp
    qed
  qed
qed

lemma fit_epochs_status:
  assumes "status s = None"
    and "\<And>epoch l w. \<exists>logs. train_epoch env epoch l w = Returns logs"
  shows "status (fit_epochs env cbs n epoch (s, f)) = None"
  using assms(1)
proof (induction n arbitrary: epoch s f)
  case 0
  then show ?case by simp
next
  case (Suc n)
  obtain logs where r: "train_epoch env epoch (lr f) (weights (model s)) = Returns logs"
    using assms(2) by blast
  obtain s2 f2 where st:
    "foldl (\<lambda>sf cb. callback_epoch_end cb epoch logs sf)
       (set_weights (new_weights logs) (s\<lparr>history := history s @ [logs]\<rparr>), f) cbs
     = (s2, f2)"
    by (cases "foldl (\<lambda>sf cb. callback_epoch_end cb epoch logs sf)
       (set_weights (new_weights logs) (s\<lparr>history := history s @ [logs]\<rparr>), f) cbs")
  have "status s2 = None"
    using callbacks_status [of epoch logs
        "set_weights (new_weights logs) (s\<lparr>history := history s @ [logs]\<rparr>)" f cbs] st Suc.prems
    by (simp add: set_weights_def)
  then show ?case using r st Suc.IH [of s2 "Suc epoch" f2] by simp
qed

subsection \<open>Effects of the blocks of statements\<close>

lemma emitsI:
  "trace s' = trace s @ cs \<Longrightarrow> cs \<noteq> [] \<Longrightarrow> list_all (\<lambda>c. stage_of c = X) cs \<Longrightarrow> emits X s s'"
  unfolding emits_def by blast

lemma memory_growth_loop_effect:
  "memory_growth_loop env gs s = (s', r) \<Longrightarrow>
     \<exists>cs. s' = s\<lparr>trace := trace s @ cs\<rparr> \<and> list_all (\<lambda>c. stage_of c = S_setup) cs"
proof (induction gs arbitrary: s)
  case Nil
  then show ?case by (intro exI [of _ "[]"]) simp
next
  case (Cons g gs)
  show ?case
  proof (cases "set_memory_growth env g")
    case (Raises e)
    then show ?thesis
      using Cons.prems by (intro exI [of _ "[SetMemoryGrowth g]"]) (auto simp: called_def)
  next
    case (Returns u)
    then have "memory_growth_loop env gs (called (SetMemoryGrowth g) s) = (s', r)"
      using Cons.prems by simp
    from Cons.IH [OF this] obtain cs where
      "s' = (called (SetMemoryGrowth g) s)\<lparr>trace := trace (called (SetMemoryGrowth g) s) @ cs\<rparr>"
      "list_all (\<lambda>c. stage_of c = S_setup) cs"
      by blast
    then show ?thesis
      by (intro exI [of _ "SetMemoryGrowth g # cs"]) (simp add: called_def)
  qed
qed

lemma configure_gpu_same_files: "same_files s (configure_gpu env s)"
  by (auto simp: same_files_def configure_gpu_def Let_def called_def print_def raise_def
      split: outcome.splits option.splits prod.splits dest!: memory_growth_loop_effect)

lemma configure_gpu_emits: "emits S_setup s (configure_gpu env s)"
  unfolding emits_def
  by (auto simp: configure_gpu_def Let_def called_def print_def raise_def
      split: outcome.splits option.splits prod.splits dest!: memory_growth_loop_effect
      intro: exI [of _ "[ListPhysicalDevices]"])

lemmas prim = called_def print_def raise_def write_file_def set_weights_def

lemma load_dataset_same_files: "same_files s (load_dataset env s)"
  by (auto simp: same_files_def load_dataset_def Let_def prim split: outcome.splits prod.splits)

lemma load_dataset_trace: "trace (load_dataset env s) = trace s @ [LoadData]"
  by (auto simp: load_dataset_def Let_def prim split: outcome.splits prod.splits)

lemma preprocess_same_files: "same_files s (preprocess s)"
  by (auto simp: same_files_def preprocess_def Let_def prim split: outcome.splits)

lemma preprocess_emits: "emits S_preprocess s (preprocess s)"
  unfolding emits_def
  by (auto simp: preprocess_def Let_def prim split: outcome.splits)

lemma build_augmentation_same_files: "same_files s (build_augmentation env s)"
  by (auto simp: same_files_def build_augmentation_def Let_def prim split: outcome.splits)

lemma build_augmentation_trace: "trace (build_augmentation env s) = trace s @ [NewAugmentation]"
  by (auto simp: build_augmentation_def Let_def prim split: outcome.splits)

lemma create_model_same_files: "same_files s (create_model env s)"
  by (auto simp: same_files_def create_model_def Let_def prim split: outcome.splits)

lemma create_model_trace:
  "trace (create_model env s)
     = trace s @ [NewSequential (build_layers (use_augmentation s) (data_augmentation s))]"
  by (auto simp: create_model_def Let_def prim split: outcome.splits)

lemma compile_model_same_files: "same_files s (compile_model env s)"
  by (auto simp: same_files_def compile_model_def Let_def prim split: outcome.splits)

lemma compile_model_emits: "emits S_compile s (compile_model env s)"
  unfolding emits_def
  by (auto simp: compile_model_def Let_def prim split: outcome.splits)

lemma train_trace: "trace (train env s) = trace s @ [Fit]"
  by (auto simp: train_def Let_def fit_epochs_trace prim split: option.splits)

lemma evaluate_test_same_files: "same_files s (evaluate_test env s)"
  by (auto simp: same_files_def evaluate_test_def Let_def prim split: outcome.splits prod.splits)

lemma load_model_same_files: "same_files s (load_model env p s)"
  by (auto simp: same_files_def load_model_def Let_def prim
      split: outcome.splits option.splits fsnode.splits)

lemma evaluate_model_same_files: "same_files s (evaluate_model env s)"
  using evaluate_test_same_files load_model_same_files
  by (auto simp: same_files_def evaluate_model_def Let_def prim)

lemma evaluate_test_trace:
  "trace (evaluate_test env s) = trace s @ [Evaluate (weights (model s))]"
  by (auto simp: evaluate_test_def Let_def prim split: outcome.splits prod.splits)

lemma load_model_trace: "trace (load_model env p s) = trace s @ [LoadModel p]"
  by (auto simp: load_model_def Let_def prim split: outcome.splits option.splits fsnode.splits)

lemma evaluate_model_emits: "emits S_evaluate s (evaluate_model env s)"
  unfolding emits_def
  by (auto simp: evaluate_model_def Let_def evaluate_test_trace load_model_trace print_def)

lemma save_model_emits: "emits S_save s (save_model env s)"
  unfolding emits_def
  by (auto simp: save_model_def Let_def prim split: outcome.splits option.splits)

lemma write_shards_trace: "trace (write_shards dir m ns s) = trace s"
  by (induction ns arbitrary: s) (simp_all add: write_file_def)

lemma conversion_failed_trace: "trace (conversion_failed e s) = trace s"
  by (simp add: conversion_failed_def print_def)

lemma convert_model_emits: "emits S_convert s (convert_model env s)"
  unfolding emits_def
  by (auto simp: convert_model_def tfjs_save_keras_model_def Let_def prim write_shards_trace
      conversion_failed_trace split: outcome.splits option.splits prod.splits)

lemma report_trace: "trace (report s) = trace s"
  by (simp add: report_def print_def)

lemma remdups_adj_snoc:
  "remdups_adj (xs @ [x]) = (if xs \<noteq> [] \<and> last xs = x then remdups_adj xs else remdups_adj xs @ [x])"
proof (cases xs rule: rev_cases)
  case Nil
  then show ?thesis by simp
next
  case (snoc ys y)
  then show ?thesis by (simp add: remdups_adj_append_two)
qed

lemma remdups_adj_append_same:
  "cs \<noteq> [] \<Longrightarrow> list_all (\<lambda>c. c = x) cs \<Longrightarrow>
     remdups_adj (xs @ cs) = (if xs \<noteq> [] \<and> last xs = x then remdups_adj xs else remdups_adj xs @ [x])"
proof (induction cs rule: rev_induct)
  case Nil
  then show ?case by simp
next
  case (snoc c cs)
  then have c: "c = x" by simp
  show ?case
  proof (cases "cs = []")
    case True
    then show ?thesis using c remdups_adj_snoc [of xs x] by simp
  next
    case False
    have "last (xs @ cs) = x"
      using False snoc.prems by (simp add: list_all_iff)
    then have "remdups_adj ((xs @ cs) @ [x]) = remdups_adj (xs @ cs)"
      using False remdups_adj_snoc [of "xs @ cs" x] by simp
    then show ?thesis using snoc False c by simp
  qed
qed

lemma emits_stages:
  assumes "emits X s s'"
  shows "stages_entered (trace s') = enter X (stages_entered (trace s))"
proof -
  from assms obtain cs where cs: "trace s' = trace s @ cs" "cs \<noteq> []"
    "list_all (\<lambda>c. stage_of c = X) cs"
    unfolding emits_def by blast
  have "list_all (\<lambda>c. c = X) (map stage_of cs)"
    using cs(3) by (simp add: list_all_iff)
  from remdups_adj_append_same [OF _ this, of "map stage_of (trace s)"] cs(2)
  show ?thesis
    by (simp add: stages_entered_def enter_def cs(1) last_map)
qed

lemma trace_emits: "trace s' = trace s @ [c] \<Longrightarrow> emits (stage_of c) s s'"
  unfolding emits_def by simp

lemma stages_after_setup: "stages_entered (trace (after_setup env)) = [S_setup]"
  unfolding after_setup_def
  by (simp only: emits_stages [OF configure_gpu_emits])
     (simp add: initial_state_def stages_entered_def enter_def)

lemma stages_after_load: "stages_entered (trace (after_load env)) = [S_setup, S_load]"
  unfolding after_load_def
  using emits_stages [OF trace_emits [OF load_dataset_trace]]
  by (simp add: stages_after_setup enter_def)

lemma stages_after_preprocess:
  "stages_entered (trace (after_preprocess env)) = [S_setup, S_load, S_preprocess]"
  unfolding after_preprocess_def
  by (simp add: emits_stages [OF preprocess_emits] stages_after_load enter_def)

lemma stages_after_augmentation:
  "stages_entered (trace (after_augmentation env)) = [S_setup, S_load, S_preprocess, S_build]"
  unfolding after_augmentation_def
  using emits_stages [OF trace_emits [OF build_augmentation_trace]]
  by (simp add: stages_after_preprocess enter_def)

lemma stages_after_create:
  "stages_entered (trace (after_create env)) = [S_setup, S_load, S_preprocess, S_build]"
  unfolding after_create_def
  using emits_stages [OF trace_emits [OF create_model_trace]]
  by (simp add: stages_after_augmentation enter_def)

lemma stages_after_compile:
  "stages_entered (trace (after_compile env))
     = [S_setup, S_load, S_preprocess, S_build, S_compile]"
  unfolding after_compile_def
  by (simp add: emits_stages [OF compile_model_emits] stages_after_create enter_def)

lemma stages_after_fit:
  "stages_entered (trace (after_fit env))
     = [S_setup, S_load, S_preprocess, S_build, S_compile, S_fit]"
  unfolding after_fit_def
  using emits_stages [OF trace_emits [OF train_trace]]
  by (simp add: stages_after_compile enter_def)

lemma stages_after_evaluate:
  "stages_entered (trace (after_evaluate env))
     = [S_setup, S_load, S_preprocess, S_build, S_compile, S_fit, S_evaluate]"
  unfolding after_evaluate_def
  by (simp add: emits_stages [OF evaluate_model_emits] stages_after_fit enter_def)

lemma stages_after_save:
  "stages_entered (trace (after_save env))
     = [S_setup, S_load, S_preprocess, S_build, S_compile, S_fit, S_evaluate, S_save]"
  unfolding after_save_def
  by (simp add: emits_stages [OF save_model_emits] stages_after_evaluate enter_def)

lemma stages_after_convert:
  "stages_entered (trace (after_convert env))
     = [S_setup, S_load, S_preprocess, S_build, S_compile, S_fit, S_evaluate, S_save, S_convert]"
  unfolding after_convert_def
  by (simp add: emits_stages [OF convert_model_emits] stages_after_save enter_def)

lemmas stages_after =
  stages_after_setup stages_after_load stages_after_preprocess stages_after_augmentation
  stages_after_create stages_after_compile stages_after_fit stages_after_evaluate
  stages_after_save stages_after_convert


lemma memory_growth_loop_returns:
  "\<forall>g \<in> set gs. set_memory_growth env g = Returns () \<Longrightarrow> snd (memory_growth_loop env gs s) = None"
  by (induction gs arbitrary: s) simp_all

lemma memory_growth_loop_status:
  "status (fst (memory_growth_loop env gs s)) = status s"
  by (cases "memory_growth_loop env gs s") (auto dest!: memory_growth_loop_effect)

lemma configure_gpu_ok:
  assumes "status s = None" and "list_physical_devices env = Returns gs"
    and "\<forall>g \<in> set gs. set_memory_growth env g = Returns ()"
  shows "status (configure_gpu env s) = None"
proof -
  obtain s2 r where l: "memory_growth_loop env gs ((called ListPhysicalDevices s)\<lparr>gpus := gs\<rparr>) = (s2, r)"
    by (cases "memory_growth_loop env gs ((called ListPhysicalDevices s)\<lparr>gpus := gs\<rparr>)")
  have r: "r = None"
    using memory_growth_loop_returns [OF assms(3), of "(called ListPhysicalDevices s)\<lparr>gpus := gs\<rparr>"] l
    by simp
  have "status s2 = None"
    using memory_growth_loop_status [of env gs "(called ListPhysicalDevices s)\<lparr>gpus := gs\<rparr>"] l assms(1)
    by (simp add: called_def)
  then show ?thesis
    using assms(1,2) l r by (simp add: configure_gpu_def Let_def print_def called_def)
qed

lemma load_dataset_ok:
  assumes "load_data env = Returns ((xtr, ytr), (xte, yte))"
  shows "status (load_dataset env s) = status s"
    and "y_train_u8 (load_dataset env s) = ytr" and "y_test_u8 (load_dataset env s) = yte"
    and "x_train_u8 (load_dataset env s) = xtr" and "x_test_u8 (load_dataset env s) = xte"
  using assms by (simp_all add: load_dataset_def Let_def prim)

lemma build_augmentation_status: "status (build_augmentation env s) = status s"
  by (simp add: build_augmentation_def Let_def prim split: outcome.splits)

lemma create_model_ok:
  "new_sequential env = Returns w0 \<Longrightarrow> status (create_model env s) = status s"
  by (simp add: create_model_def Let_def prim)

lemma compile_model_ok:
  assumes "compile_result env = Returns ()" and "summary_result env = Returns ()"
  shows "status (compile_model env s) = status s"
  using assms by (simp add: compile_model_def Let_def prim)

lemma compile_model_compiled:
  "status (compile_model env s) = None \<Longrightarrow> compiled (model (compile_model env s)) \<noteq> None"
  by (auto simp: compile_model_def Let_def prim split: outcome.splits)

lemma train_ok:
  assumes "status s = None" and "compiled (model s) \<noteq> None"
    and "\<And>epoch l w. \<exists>logs. train_epoch env epoch l w = Returns logs"
  shows "status (train env s) = None"
  using assms(1,2) fit_epochs_status [OF _ assms(3)]
  by (auto simp: train_def Let_def prim)

lemma train_checkpoint:
  assumes "history s = []" and "checkpoint_epochs s = []"
  shows "checkpoint_ok (train env s)
       \<and> (status s = None \<and> status (train env s) = None \<longrightarrow> history (train env s) \<noteq> [])
       \<and> (\<exists>w. model (train env s) = (model s)\<lparr>weights := w\<rparr>)
       \<and> (\<forall>p. p = ''best_mnist_model.h5'' \<or> fs (train env s) p = fs s p)
       \<and> (\<exists>k. files_written (train env s) = files_written s @ replicate k ''best_mnist_model.h5''
             \<and> length (checkpoint_epochs (train env s)) = k)
       \<and> stdout (train env s) = stdout s @
           [Text banner, Text ''Training model (this may take 10-20 minutes on GPU)...'', Text banner]"
proof -
  define s1 where "s1 = called Fit
                 (print (Text banner)
                   (print (Text ''Training model (this may take 10-20 minutes on GPU)...'')
                     (print (Text banner) s)))"
  have s1: "history s1 = []" "checkpoint_epochs s1 = []" "model s1 = model s" "fs s1 = fs s"
    "files_written s1 = files_written s" "status s1 = status s"
    "stdout s1 = stdout s @
           [Text banner, Text ''Training model (this may take 10-20 minutes on GPU)...'', Text banner]"
    using assms by (simp_all add: s1_def prim)
  have ok1: "checkpoint_ok s1"
    by (simp add: checkpoint_ok_def s1 record_epochs_def)
  show ?thesis
  proof (cases "compiled (model s)")
    case None
    then have t: "train env s = raise (Exn RuntimeError ''You must compile your model before training'') s1"
      by (simp add: train_def s1_def [symmetric] s1 Let_def)
    have "\<exists>w. model (train env s) = (model s)\<lparr>weights := w\<rparr>"
      by (rule exI [of _ "weights (model s)"]) (simp add: t raise_def s1)
    moreover have "\<exists>k. files_written (train env s) = files_written s @ replicate k ''best_mnist_model.h5''
             \<and> length (checkpoint_epochs (train env s)) = k"
      by (rule exI [of _ 0]) (simp add: t raise_def s1)
    moreover have "checkpoint_ok (train env s)" by (simp add: t checkpoint_ok_raise ok1)
    ultimately show ?thesis
      by (simp add: t raise_def s1)
  next
    case (Some c)
    define f0 where "f0 = \<lparr>lr = learning_rate c, rl_best = None, rl_wait = 0,
                     es_best = None, es_wait = 0, es_best_weights = None,
                     mc_best = None, stop_training = False\<rparr>"
    have t: "train env s = fit_epochs env callbacks 30 0 (s1, f0)"
      using Some by (simp add: train_def s1_def [symmetric] s1 Let_def f0_def)
    have inv: "fit_inv 0 s1 f0"
      by (simp add: fit_inv_def s1 ok1 f0_def best_accuracy_def)
    note r = fit_epochs_inv [OF inv, of env 30, folded t]
    from r have fr: "fit_frame s1 (train env s)" by blast
    have a: "checkpoint_ok (train env s)" using r by blast
    have b: "status s = None \<and> status (train env s) = None \<longrightarrow> history (train env s) \<noteq> []"
      using r s1 by simp
    have c: "\<exists>w. model (train env s) = (model s)\<lparr>weights := w\<rparr>"
      using fr by (simp add: fit_frame_def s1)
    have d: "\<forall>p. p = ''best_mnist_model.h5'' \<or> fs (train env s) p = fs s p"
      using fr unfolding fit_frame_def s1 by metis
    have e: "\<exists>k. files_written (train env s) = files_written s @ replicate k ''best_mnist_model.h5''
             \<and> length (checkpoint_epochs (train env s)) = k"
      using fr by (simp add: fit_frame_def s1)
    have f: "stdout (train env s) = stdout s @
           [Text banner, Text ''Training model (this may take 10-20 minutes on GPU)...'', Text banner]"
      using fr by (simp add: fit_frame_def s1)
    from a b c d e f show ?thesis by blast
  qed
qed

subsection \<open>Evaluation, saving and conversion\<close>

lemma evaluate_test_model: "model (evaluate_test env s) = model s"
  by (auto simp: evaluate_test_def Let_def prim split: outcome.splits prod.splits)

lemma evaluate_test_ok:
  "\<forall>w. \<exists>r. evaluate env w = Returns r \<Longrightarrow> status (evaluate_test env s) = status s"
proof -
  assume "\<forall>w. \<exists>r. evaluate env w = Returns r"
  then obtain r where "evaluate env (weights (model s)) = Returns r" by blast
  then show ?thesis by (cases r) (simp add: evaluate_test_def Let_def prim)
qed

lemma load_model_loaded:
  "status s = None \<Longrightarrow> status (load_model env p s) = None \<Longrightarrow>
     fs s p = Some (H5 (model (load_model env p s)))"
  by (auto simp: load_model_def Let_def prim split: outcome.splits option.splits fsnode.splits)

lemma load_model_ok:
  "load_model_result env = Returns () \<Longrightarrow> fs s p = Some (H5 m) \<Longrightarrow>
     status (load_model env p s) = status s"
  by (simp add: load_model_def Let_def prim)

lemma print_fields:
  "status (print l s) = status s" "fs (print l s) = fs s" "model (print l s) = model s"
  "files_written (print l s) = files_written s" "history (print l s) = history s"
  "checkpoint_epochs (print l s) = checkpoint_epochs s" "trace (print l s) = trace s"
  "stdout (print l s) = stdout s @ [l]"
  by (simp_all add: print_def)

lemma evaluate_model_loaded:
  assumes "status s = None" and "status (evaluate_model env s) = None"
  shows "fs s ''best_mnist_model.h5'' = Some (H5 (model (evaluate_model env s)))"
proof -
  define s1 where "s1 = evaluate_test env
                 (print (Text banner) (print (Text ''Evaluating model...'') (print (Text banner) s)))"
  define s1' where "s1' = print (Fmt ''Test loss: {:.4f}'' [test_loss s1])
                        (print (Fmt ''Test accuracy: {:.4f} ({:.2f}%)''
                                  [test_acc s1, test_acc s1 * 100]) s1)"
  define s2 where "s2 = load_model env ''best_mnist_model.h5'' s1'"
  define s3 where "s3 = evaluate_test env s2"
  have e: "evaluate_model env s =
             (if status s1 \<noteq> None then s1 else if status s2 \<noteq> None then s2
              else if status s3 \<noteq> None then s3
              else print (Fmt ''Best model accuracy: {:.4f} ({:.2f}%)''
                                 [test_acc s3, test_acc s3 * 100]) s3)"
    by (simp add: evaluate_model_def Let_def s1_def s1'_def s2_def s3_def)
  have st: "status s1 = None" "status s2 = None" "status s3 = None"
    and ev: "model (evaluate_model env s) = model s3"
    using assms(2) unfolding e by (auto simp: print_fields split: if_splits)
  have f1: "fs s1' = fs s"
    using evaluate_test_same_files [of "print (Text banner) (print (Text ''Evaluating model...'') (print (Text banner) s))" env]
    by (simp add: s1'_def s1_def [symmetric] print_fields same_files_def)
  have "status s1' = None" using st(1) by (simp add: s1'_def print_fields)
  from load_model_loaded [OF this st(2) [unfolded s2_def]]
  have "fs s1' ''best_mnist_model.h5'' = Some (H5 (model s2))" by (simp add: s2_def)
  then show ?thesis
    by (simp add: f1 ev s3_def evaluate_test_model)
qed

lemma evaluate_model_ok:
  assumes "\<forall>w. \<exists>r. evaluate env w = Returns r" and "load_model_result env = Returns ()"
    and "fs s ''best_mnist_model.h5'' = Some (H5 m)"
  shows "status (evaluate_model env s) = status s"
proof -
  define s1 where "s1 = evaluate_test env
                 (print (Text banner) (print (Text ''Evaluating model...'') (print (Text banner) s)))"
  define s1' where "s1' = print (Fmt ''Test loss: {:.4f}'' [test_loss s1])
                        (print (Fmt ''Test accuracy: {:.4f} ({:.2f}%)''
                                  [test_acc s1, test_acc s1 * 100]) s1)"
  define s2 where "s2 = load_model env ''best_mnist_model.h5'' s1'"
  define s3 where "s3 = evaluate_test env s2"
  have e: "evaluate_model env s =
             (if status s1 \<noteq> None then s1 else if status s2 \<noteq> None then s2
              else if status s3 \<noteq> None then s3
              else print (Fmt ''Best model accuracy: {:.4f} ({:.2f}%)''
                                 [test_acc s3, test_acc s3 * 100]) s3)"
    by (simp add: evaluate_model_def Let_def s1_def s1'_def s2_def s3_def)
  have a: "status s1 = status s"
    by (simp add: s1_def evaluate_test_ok [OF assms(1)] print_fields)
  have f1: "fs s1' = fs s"
    using evaluate_test_same_files [of "print (Text banner) (print (Text ''Evaluating model...'') (print (Text banner) s))" env]
    by (simp add: s1'_def s1_def [symmetric] print_fields same_files_def)
  have b: "status s2 = status s"
    unfolding s2_def
    using load_model_ok [OF assms(2), of s1' "''best_mnist_model.h5''" m] assms(3) f1 a
    by (simp add: s1'_def print_fields)
  have c: "status s3 = status s"
    by (simp add: s3_def evaluate_test_ok [OF assms(1)] b)
  show ?thesis unfolding e using a b c by (simp add: print_fields)
qed

lemma save_model_ok:
  assumes "makedirs_result env = Returns ()" and "save_result env = Returns ()"
  shows "status (save_model env s) = status s"
  using assms by (simp add: save_model_def Let_def prim split: option.splits)

lemma save_model_effect:
  assumes "status s = None" and "status (save_model env s) = None"
  shows "fs (save_model env s) ''models/mnist_model.h5'' = Some (H5 (model s))"
    and "fs (save_model env s) ''best_mnist_model.h5'' = fs s ''best_mnist_model.h5''"
    and "files_written (save_model env s) = files_written s @ [''models/mnist_model.h5'']"
  using assms
  by (auto simp: save_model_def Let_def prim split: outcome.splits option.splits)

lemma save_model_frame:
  "model (save_model env s) = model s" "history (save_model env s) = history s"
  "checkpoint_epochs (save_model env s) = checkpoint_epochs s"
  by (auto simp: save_model_def Let_def prim split: outcome.splits option.splits)

lemma write_shards_effect:
  "files_written (write_shards dir m ns s) = files_written s @ map (\<lambda>n. dir @ ''/'' @ n) ns"
  "status (write_shards dir m ns s) = status s"
  "model (write_shards dir m ns s) = model s"
  "history (write_shards dir m ns s) = history s"
  "checkpoint_epochs (write_shards dir m ns s) = checkpoint_epochs s"
  "stdout (write_shards dir m ns s) = stdout s"
  by (induction ns arbitrary: s) (simp_all add: write_file_def)

lemma write_shards_fs:
  "\<not> prefix (dir @ ''/'') p \<Longrightarrow> fs (write_shards dir m ns s) p = fs s p"
  by (induction ns arbitrary: s) (auto simp: write_file_def)

lemma conversion_failed_frame:
  "status (conversion_failed e s) = status s" "fs (conversion_failed e s) = fs s"
  "model (conversion_failed e s) = model s"
  "files_written (conversion_failed e s) = files_written s"
  "history (conversion_failed e s) = history s"
  "checkpoint_epochs (conversion_failed e s) = checkpoint_epochs s"
  by (simp_all add: conversion_failed_def print_def)

lemma conversion_failed_log:
  "Text ''  tensorflowjs_converter --input_format keras models/mnist_model.h5 static/model''
     \<in> set (stdout (conversion_failed e s))"
  "is_ImportError e \<Longrightarrow> Text ''tensorflowjs not found.'' \<in> set (stdout (conversion_failed e s))"
  "\<not> is_ImportError e \<Longrightarrow>
     Text (''Conversion failed: '' @ msg e) \<in> set (stdout (conversion_failed e s))"
  by (simp_all add: conversion_failed_def print_def)

lemma convert_model_frame:
  "status (convert_model env s) = status s" "model (convert_model env s) = model s"
  "history (convert_model env s) = history s"
  "checkpoint_epochs (convert_model env s) = checkpoint_epochs s"
  by (auto simp: convert_model_def tfjs_save_keras_model_def Let_def prim write_shards_effect
      conversion_failed_frame split: outcome.splits option.splits prod.splits)

lemma convert_model_fs:
  "\<not> prefix ''static/model/'' p \<Longrightarrow> fs (convert_model env s) p = fs s p"
  by (auto simp: convert_model_def tfjs_save_keras_model_def Let_def prim write_shards_fs
      conversion_failed_frame split: outcome.splits option.splits prod.splits)

lemma convert_model_files:
  "files_written (convert_model env s) =
     files_written s @
       (case import_tfjs env of
          Raises e \<Rightarrow> []
        | Returns u \<Rightarrow>
            map (\<lambda>n. ''static/model/'' @ n) (fst (save_keras_model env)) @
              (case snd (save_keras_model env) of
                 Raises e \<Rightarrow> []
               | Returns u \<Rightarrow> [''static/model/model.json'']))"
  by (auto simp: convert_model_def tfjs_save_keras_model_def Let_def prim write_shards_effect
      conversion_failed_frame split: outcome.splits option.splits prod.splits)

lemma report_frame:
  "status (report s) = status s" "fs (report s) = fs s" "model (report s) = model s"
  "files_written (report s) = files_written s" "history (report s) = history s"
  "checkpoint_epochs (report s) = checkpoint_epochs s"
  by (simp_all add: report_def print_def)

lemma report_stdout: "l \<in> set (stdout s) \<Longrightarrow> l \<in> set (stdout (report s))"
  by (simp add: report_def print_def)

subsection \<open>The run as a whole\<close>

lemma same_files_trans: "same_files a b \<Longrightarrow> same_files b c \<Longrightarrow> same_files a c"
  by (simp add: same_files_def)

lemma same_files_before_fit: "same_files (initial_state env) (after_compile env)"
proof -
  have a: "same_files (initial_state env) (after_setup env)"
    unfolding after_setup_def by (rule configure_gpu_same_files)
  have b: "same_files (after_setup env) (after_load env)"
    unfolding after_load_def by (rule load_dataset_same_files)
  have c: "same_files (after_load env) (after_preprocess env)"
    unfolding after_preprocess_def by (rule preprocess_same_files)
  have d: "same_files (after_preprocess env) (after_augmentation env)"
    unfolding after_augmentation_def by (rule build_augmentation_same_files)
  have e: "same_files (after_augmentation env) (after_create env)"
    unfolding after_create_def by (rule create_model_same_files)
  have f: "same_files (after_create env) (after_compile env)"
    unfolding after_compile_def by (rule compile_model_same_files)
  from a b c d e f show ?thesis by (simp add: same_files_def)
qed

lemma before_fit:
  "history (after_compile env) = []" "checkpoint_epochs (after_compile env) = []"
  "files_written (after_compile env) = []" "fs (after_compile env) = initial_fs env"
  using same_files_before_fit [of env] by (simp_all add: same_files_def initial_state_def)

lemma after_fit_facts:
  "checkpoint_ok (after_fit env)"
  "status (after_compile env) = None \<and> status (after_fit env) = None
     \<longrightarrow> history (after_fit env) \<noteq> []"
  "\<exists>k. files_written (after_fit env) = replicate k ''best_mnist_model.h5''
        \<and> length (checkpoint_epochs (after_fit env)) = k"
  using train_checkpoint [OF before_fit(1,2), of env env]
  unfolding after_fit_def [symmetric] by (simp_all add: before_fit)

lemma main_completes:
  assumes su: "status (after_setup env) = None"
    and ld: "load_data env = Returns ((xtr, ytr), (xte, yte))"
    and lb: "\<forall>l \<in> set ytr \<union> set yte. unat l \<le> 9"
    and bd: "new_sequential env = Returns w0"
    and cp: "compile_result env = Returns ()" "summary_result env = Returns ()"
    and ft: "\<And>epoch l w. \<exists>logs. train_epoch env epoch l w = Returns logs"
    and ev: "\<forall>w. \<exists>r. evaluate env w = Returns r"
    and rl: "load_model_result env = Returns ()"
    and sv: "makedirs_result env = Returns ()" "save_result env = Returns ()"
  shows "status (main env) = None"
proof -
  have l: "status (after_load env) = None"
    unfolding after_load_def using load_dataset_ok(1) [OF ld] su by simp
  have "\<forall>l \<in> set (y_train_u8 (after_load env)) \<union> set (y_test_u8 (after_load env)). unat l \<le> 9"
    unfolding after_load_def using load_dataset_ok(2,3) [OF ld] lb by simp
  then have p: "status (after_preprocess env) = None"
    unfolding after_preprocess_def using preprocess_labels(1) l by simp
  have a: "status (after_augmentation env) = None"
    unfolding after_augmentation_def using p by (simp add: build_augmentation_status)
  have c: "status (after_create env) = None"
    unfolding after_create_def using a create_model_ok [OF bd] by simp
  have m: "status (after_compile env) = None"
    unfolding after_compile_def using c compile_model_ok [OF cp] by simp
  have "compiled (model (after_compile env)) \<noteq> None"
    using m compile_model_compiled [of env "after_create env"] by (simp add: after_compile_def)
  then have f: "status (after_fit env) = None"
    unfolding after_fit_def using train_ok [OF m _ ft] by simp
  have "history (after_fit env) \<noteq> []" using after_fit_facts(2) m f by simp
  then obtain md where "fs (after_fit env) ''best_mnist_model.h5'' = Some (H5 md)"
    using after_fit_facts(1) [of env] by (auto simp: checkpoint_ok_def)
  then have e: "status (after_evaluate env) = None"
    unfolding after_evaluate_def using evaluate_model_ok [OF ev rl] f by simp
  have s: "status (after_save env) = None"
    unfolding after_save_def using save_model_ok [OF sv] e by simp
  have v: "status (after_convert env) = None"
    unfolding after_convert_def using s by (simp add: convert_model_frame)
  show ?thesis
    unfolding main_unfold using su l p a c m f e s v by (simp add: report_frame)
qed

lemma call_stage: "c \<in> set tr \<Longrightarrow> stage_of c \<in> set (stages_entered tr)"
  by (simp add: stages_entered_def)

lemma stage_call: "X \<in> set (stages_entered tr) \<Longrightarrow> \<exists>c \<in> set tr. stage_of c = X"
  by (auto simp: stages_entered_def)


lemma reached_fit:
  assumes "S_fit \<in> set (stages_entered (trace (main env)))"
  shows "status (after_setup env) = None" and "status (after_load env) = None"
    and "status (after_preprocess env) = None" and "status (after_augmentation env) = None"
    and "status (after_create env) = None" and "status (after_compile env) = None"
  using assms unfolding main_unfold
  by (auto simp: stages_after report_trace split: if_splits)

lemma reached_convert:
  assumes "S_convert \<in> set (stages_entered (trace (main env)))"
  shows "status (after_setup env) = None" and "status (after_load env) = None"
    and "status (after_preprocess env) = None" and "status (after_augmentation env) = None"
    and "status (after_create env) = None" and "status (after_compile env) = None"
    and "status (after_fit env) = None" and "status (after_evaluate env) = None"
    and "status (after_save env) = None"
  using assms unfolding main_unfold
  by (auto simp: stages_after report_trace split: if_splits)

lemma example_setup: "status (after_setup example_env) = None"
  unfolding after_setup_def
  by (rule configure_gpu_ok [where gs = "[''GPU:0'']"])
     (simp_all add: initial_state_def example_env_def)

lemma completes_like_example:
  assumes "status (after_setup env) = None"
    and "load_data env = load_data example_env"
    and "new_sequential env = new_sequential example_env"
    and "compile_result env = compile_result example_env"
    and "summary_result env = summary_result example_env"
    and "train_epoch env = train_epoch example_env"
    and "evaluate env = evaluate example_env"
    and "load_model_result env = load_model_result example_env"
    and "makedirs_result env = makedirs_result example_env"
    and "save_result env = save_result example_env"
  shows "status (main env) = None"
proof (rule main_completes [OF assms(1)])
  show "load_data env = Returns (([replicate 28 (replicate 28 0)], [3]),
                           ([replicate 28 (replicate 28 255)], [7]))"
    by (simp add: assms(2) example_env_def)
  show "\<forall>l \<in> set [3 :: 8 word] \<union> set [7]. unat l \<le> 9"
    by simp
  show "new_sequential env = Returns 0"
    by (simp add: assms(3) example_env_def)
  show "compile_result env = Returns ()" "summary_result env = Returns ()"
    by (simp_all add: assms(4,5) example_env_def)
  show "\<exists>logs. train_epoch env epoch l w = Returns logs" for epoch l w
    by (simp add: assms(6) example_env_def)
  show "\<forall>w. \<exists>r. evaluate env w = Returns r"
    by (intro allI exI [of _ "(1 / 10, 9 / 10)"]) (simp add: assms(7) example_env_def)
  show "load_model_result env = Returns ()" "makedirs_result env = Returns ()"
    "save_result env = Returns ()"
    by (simp_all add: assms(8,9,10) example_env_def)
qed

lemma example_completes: "status (main example_env) = None"
  by (rule completes_like_example [OF example_setup]) simp_all

lemma completed_run:
  assumes "status (main env) = None"
  shows "history (main env) = history (after_fit env)"
    and "checkpoint_epochs (main env) = checkpoint_epochs (after_fit env)"
    and "checkpoint_ok (after_fit env)"
    and "history (after_fit env) \<noteq> []"
    and "model (main env) = model (after_evaluate env)"
    and "fs (after_fit env) ''best_mnist_model.h5'' = Some (H5 (model (after_evaluate env)))"
    and "fs (main env) ''best_mnist_model.h5'' = fs (after_fit env) ''best_mnist_model.h5''"
    and "fs (main env) ''models/mnist_model.h5'' = Some (H5 (model (after_evaluate env)))"
    and "files_written (main env)
           = replicate (length (checkpoint_epochs (after_fit env))) ''best_mnist_model.h5''
             @ ''models/mnist_model.h5'' # web_files env"
proof -
  note c = main_completed [OF assms]
  have ev: "same_files (after_fit env) (after_evaluate env)"
    unfolding after_evaluate_def by (rule evaluate_model_same_files)
  note sv = save_model_effect [OF c(9) c(10) [unfolded after_save_def]]
    save_model_frame [of env "after_evaluate env"]
  show "history (main env) = history (after_fit env)"
    using ev
    by (simp add: c(1) report_frame after_convert_def convert_model_frame after_save_def sv
        same_files_def)
  show "checkpoint_epochs (main env) = checkpoint_epochs (after_fit env)"
    using ev
    by (simp add: c(1) report_frame after_convert_def convert_model_frame after_save_def sv
        same_files_def)
  show "checkpoint_ok (after_fit env)" by (rule after_fit_facts(1))
  show "history (after_fit env) \<noteq> []" using after_fit_facts(2) c(7,8) by simp
  show "model (main env) = model (after_evaluate env)"
    by (simp add: c(1) report_frame after_convert_def convert_model_frame after_save_def sv)
  show "fs (after_fit env) ''best_mnist_model.h5'' = Some (H5 (model (after_evaluate env)))"
    using evaluate_model_loaded [OF c(8) c(9) [unfolded after_evaluate_def]]
    by (simp add: after_evaluate_def)
  show "fs (main env) ''best_mnist_model.h5'' = fs (after_fit env) ''best_mnist_model.h5''"
    using ev
    by (simp add: c(1) report_frame after_convert_def convert_model_fs after_save_def sv
        same_files_def)
  show "fs (main env) ''models/mnist_model.h5'' = Some (H5 (model (after_evaluate env)))"
    by (simp add: c(1) report_frame after_convert_def convert_model_fs after_save_def sv)
  obtain k where k: "files_written (after_fit env) = replicate k ''best_mnist_model.h5''"
    "length (checkpoint_epochs (after_fit env)) = k"
    using after_fit_facts(3) [of env] by blast
  show "files_written (main env)
           = replicate (length (checkpoint_epochs (after_fit env))) ''best_mnist_model.h5''
             @ ''models/mnist_model.h5'' # web_files env"
    using ev k
    by (simp add: c(1) report_frame after_convert_def convert_model_files after_save_def sv
        same_files_def web_files_def)
qed

lemma compile_model_config:
  "status (compile_model env s) = None \<Longrightarrow>
     compiled (model (compile_model env s))
       = Some \<lparr>learning_rate = 1 / 1000, loss = ''categorical_crossentropy'',
               metrics = [''accuracy'']\<rparr>"
  by (auto simp: compile_model_def Let_def prim split: outcome.splits)

lemma example_fit:
  assumes "train_epoch env = train_epoch example_env"
    and "checkpoint_epochs s = []" and "history s = []"
  shows "map new_weights (history (fit_epochs env callbacks 30 0
     (s, \<lparr>lr = 1 / 1000, rl_best = None, rl_wait = 0,
                     es_best = None, es_wait = 0, es_best_weights = None,
                     mc_best = None, stop_training = False\<rparr>)))
    = [1, 2, 3, 4, 5, 6, 7, 8, 9, 10, 11]
  \<and> checkpoint_epochs (fit_epochs env callbacks 30 0
     (s, \<lparr>lr = 1 / 1000, rl_best = None, rl_wait = 0,
                     es_best = None, es_wait = 0, es_best_weights = None,
                     mc_best = None, stop_training = False\<rparr>)) = [0, 1, 2]"
  using assms(2,3)
  by (simp add: eval_nat_numeral assms(1) example_env_def callbacks_def monitored_def
      improved_def Let_def prim)

lemma example_history:
  assumes "status (main env) = None" and "train_epoch env = train_epoch example_env"
  shows "map new_weights (history (main env)) = [1, 2, 3, 4, 5, 6, 7, 8, 9, 10, 11]"
    and "checkpoint_epochs (main env) = [0, 1, 2]"
proof -
  note c = main_completed [OF assms(1)]
  have cfg: "compiled (model (after_compile env))
       = Some \<lparr>learning_rate = 1 / 1000, loss = ''categorical_crossentropy'',
               metrics = [''accuracy'']\<rparr>"
    using compile_model_config [of env "after_create env"] c(7) by (simp add: after_compile_def)
  define s1 where "s1 = called Fit
                 (print (Text banner)
                   (print (Text ''Training model (this may take 10-20 minutes on GPU)...'')
                     (print (Text banner) (after_compile env))))"
  have s1: "checkpoint_epochs s1 = []" "history s1 = []" "model s1 = model (after_compile env)"
    by (simp_all add: s1_def prim before_fit)
  have "after_fit env = fit_epochs env callbacks 30 0
     (s1, \<lparr>lr = 1 / 1000, rl_best = None, rl_wait = 0,
                     es_best = None, es_wait = 0, es_best_weights = None,
                     mc_best = None, stop_training = False\<rparr>)"
    unfolding after_fit_def train_def Let_def s1_def [symmetric] by (simp add: s1 cfg)
  with example_fit [OF assms(2) s1(1,2)]
  have "map new_weights (history (after_fit env)) = [1, 2, 3, 4, 5, 6, 7, 8, 9, 10, 11]
      \<and> checkpoint_epochs (after_fit env) = [0, 1, 2]"
    by simp
  then show "map new_weights (history (main env)) = [1, 2, 3, 4, 5, 6, 7, 8, 9, 10, 11]"
    and "checkpoint_epochs (main env) = [0, 1, 2]"
    by (simp_all add: completed_run(1,2) [OF assms(1)])
qed

lemma best_checkpoint:
  assumes "status (main env) = None"
  shows "checkpoint_epochs (main env) = record_epochs (history (main env))
       \<and> checkpoint_epochs (main env) \<noteq> []
       \<and> fs (main env) ''best_mnist_model.h5'' = Some (H5 (model (main env)))
       \<and> fs (main env) ''models/mnist_model.h5'' = Some (H5 (model (main env)))
       \<and> weights (model (main env))
           = new_weights (history (main env) ! last (checkpoint_epochs (main env)))"
proof -
  note r = completed_run [OF assms]
  have ok: "checkpoint_epochs (after_fit env) = record_epochs (history (after_fit env))"
    and ck: "fs (after_fit env) ''best_mnist_model.h5''
         = Some (H5 ((model (after_fit env))\<lparr>weights :=
              new_weights (history (after_fit env) ! last (checkpoint_epochs (after_fit env)))\<rparr>))"
    using r(3,4) by (simp_all add: checkpoint_ok_def)
  have ne: "checkpoint_epochs (after_fit env) \<noteq> []"
    using ok r(4) record_epochs_nonempty by simp
  have "model (after_evaluate env) = (model (after_fit env))\<lparr>weights :=
              new_weights (history (after_fit env) ! last (checkpoint_epochs (after_fit env)))\<rparr>"
    using ck r(6) by simp
  then have w: "weights (model (after_evaluate env))
      = new_weights (history (after_fit env) ! last (checkpoint_epochs (after_fit env)))"
    by simp
  show ?thesis
    using ok ne w r(6) by (simp add: r(1,2,5,7,8))
qed

subsection \<open>Traces of whole runs\<close>

lemma emits_prefix: "emits X s s' \<Longrightarrow> prefix (trace s) (trace s')"
  unfolding emits_def by auto

lemma trace_steps:
  "prefix (trace (after_setup env)) (trace (after_load env))"
  "prefix (trace (after_load env)) (trace (after_preprocess env))"
  "prefix (trace (after_preprocess env)) (trace (after_augmentation env))"
  "prefix (trace (after_augmentation env)) (trace (after_create env))"
  "prefix (trace (after_create env)) (trace (after_compile env))"
  "prefix (trace (after_compile env)) (trace (after_fit env))"
  "prefix (trace (after_fit env)) (trace (after_evaluate env))"
  "prefix (trace (after_evaluate env)) (trace (after_save env))"
  "prefix (trace (after_save env)) (trace (after_convert env))"
proof -
  show "prefix (trace (after_setup env)) (trace (after_load env))"
    unfolding after_load_def by (simp add: load_dataset_trace)
  show "prefix (trace (after_load env)) (trace (after_preprocess env))"
    unfolding after_preprocess_def by (rule emits_prefix [OF preprocess_emits])
  show "prefix (trace (after_preprocess env)) (trace (after_augmentation env))"
    unfolding after_augmentation_def by (simp add: build_augmentation_trace)
  show "prefix (trace (after_augmentation env)) (trace (after_create env))"
    unfolding after_create_def by (simp add: create_model_trace)
  show "prefix (trace (after_create env)) (trace (after_compile env))"
    unfolding after_compile_def by (rule emits_prefix [OF compile_model_emits])
  show "prefix (trace (after_compile env)) (trace (after_fit env))"
    unfolding after_fit_def by (simp add: train_trace)
  show "prefix (trace (after_fit env)) (trace (after_evaluate env))"
    unfolding after_evaluate_def by (rule emits_prefix [OF evaluate_model_emits])
  show "prefix (trace (after_evaluate env)) (trace (after_save env))"
    unfolding after_save_def by (rule emits_prefix [OF save_model_emits])
  show "prefix (trace (after_save env)) (trace (after_convert env))"
    unfolding after_convert_def by (rule emits_prefix [OF convert_model_emits])
qed

lemma trace_chain:
  "prefix (trace (after_fit env)) (trace (after_evaluate env))"
  "prefix (trace (after_fit env)) (trace (after_save env))"
  "prefix (trace (after_fit env)) (trace (after_convert env))"
  "prefix (trace (after_create env)) (trace (after_compile env))"
  "prefix (trace (after_create env)) (trace (after_fit env))"
  "prefix (trace (after_create env)) (trace (after_evaluate env))"
  "prefix (trace (after_create env)) (trace (after_save env))"
  "prefix (trace (after_create env)) (trace (after_convert env))"
  "prefix (trace (after_load env)) (trace (after_preprocess env))"
  "prefix (trace (after_load env)) (trace (after_augmentation env))"
  "prefix (trace (after_load env)) (trace (after_create env))"
  "prefix (trace (after_load env)) (trace (after_compile env))"
  "prefix (trace (after_load env)) (trace (after_fit env))"
  "prefix (trace (after_load env)) (trace (after_evaluate env))"
  "prefix (trace (after_load env)) (trace (after_save env))"
  "prefix (trace (after_load env)) (trace (after_convert env))"
  "prefix (trace (after_setup env)) (trace (after_load env))"
  "prefix (trace (after_setup env)) (trace (after_preprocess env))"
  "prefix (trace (after_setup env)) (trace (after_augmentation env))"
  "prefix (trace (after_setup env)) (trace (after_create env))"
  "prefix (trace (after_setup env)) (trace (after_compile env))"
  "prefix (trace (after_setup env)) (trace (after_fit env))"
  "prefix (trace (after_setup env)) (trace (after_evaluate env))"
  "prefix (trace (after_setup env)) (trace (after_save env))"
  "prefix (trace (after_setup env)) (trace (after_convert env))"
proof -
  note t = trace_steps [of env]
  note f1 = t(7)
  note f2 = prefix_order.trans [OF f1 t(8)]
  note f3 = prefix_order.trans [OF f2 t(9)]
  note c1 = t(5)
  note c2 = prefix_order.trans [OF c1 t(6)]
  note c3 = prefix_order.trans [OF c2 f1]
  note c4 = prefix_order.trans [OF c2 f2]
  note c5 = prefix_order.trans [OF c2 f3]
  note l1 = t(2)
  note l2 = prefix_order.trans [OF l1 t(3)]
  note l3 = prefix_order.trans [OF l2 t(4)]
  note l4 = prefix_order.trans [OF l3 c1]
  note l5 = prefix_order.trans [OF l3 c2]
  note l6 = prefix_order.trans [OF l3 c3]
  note l7 = prefix_order.trans [OF l3 c4]
  note l8 = prefix_order.trans [OF l3 c5]
  note s1 = t(1)
  note s2 = prefix_order.trans [OF s1 l1]
  note s3 = prefix_order.trans [OF s1 l2]
  note s4 = prefix_order.trans [OF s1 l3]
  note s5 = prefix_order.trans [OF s1 l4]
  note s6 = prefix_order.trans [OF s1 l5]
  note s7 = prefix_order.trans [OF s1 l6]
  note s8 = prefix_order.trans [OF s1 l7]
  note s9 = prefix_order.trans [OF s1 l8]
  show "prefix (trace (after_fit env)) (trace (after_evaluate env))"
    "prefix (trace (after_fit env)) (trace (after_save env))"
    "prefix (trace (after_fit env)) (trace (after_convert env))"
    "prefix (trace (after_create env)) (trace (after_compile env))"
    "prefix (trace (after_create env)) (trace (after_fit env))"
    "prefix (trace (after_create env)) (trace (after_evaluate env))"
    "prefix (trace (after_create env)) (trace (after_save env))"
    "prefix (trace (after_create env)) (trace (after_convert env))"
    "prefix (trace (after_load env)) (trace (after_preprocess env))"
    "prefix (trace (after_load env)) (trace (after_augmentation env))"
    "prefix (trace (after_load env)) (trace (after_create env))"
    "prefix (trace (after_load env)) (trace (after_compile env))"
    "prefix (trace (after_load env)) (trace (after_fit env))"
    "prefix (trace (after_load env)) (trace (after_evaluate env))"
    "prefix (trace (after_load env)) (trace (after_save env))"
    "prefix (trace (after_load env)) (trace (after_convert env))"
    "prefix (trace (after_setup env)) (trace (after_load env))"
    "prefix (trace (after_setup env)) (trace (after_preprocess env))"
    "prefix (trace (after_setup env)) (trace (after_augmentation env))"
    "prefix (trace (after_setup env)) (trace (after_create env))"
    "prefix (trace (after_setup env)) (trace (after_compile env))"
    "prefix (trace (after_setup env)) (trace (after_fit env))"
    "prefix (trace (after_setup env)) (trace (after_evaluate env))"
    "prefix (trace (after_setup env)) (trace (after_save env))"
    "prefix (trace (after_setup env)) (trace (after_convert env))"
    by (fact f1 f2 f3 c1 c2 c3 c4 c5 l1 l2 l3 l4 l5 l6 l7 l8 s1 s2 s3 s4 s5 s6 s7 s8 s9)+
qed


lemma trace_from_load:
  "status (after_setup env) = None \<Longrightarrow> prefix (trace (after_load env)) (trace (main env))"
  unfolding main_unfold by (simp add: report_trace trace_chain)



lemma setup_like_example:
  assumes "list_physical_devices env = list_physical_devices example_env"
    and "set_memory_growth env = set_memory_growth example_env"
  shows "status (after_setup env) = None"
  unfolding after_setup_def
  by (rule configure_gpu_ok [where gs = "[''GPU:0'']"])
     (simp_all add: initial_state_def assms example_env_def)

lemma no_tfjs_completes: "status (main env_no_tfjs) = None"
  by (rule completes_like_example [OF setup_like_example]) (simp_all add: env_no_tfjs_def)

lemma conversion_error_completes: "status (main env_conversion_error) = None"
  by (rule completes_like_example [OF setup_like_example])
     (simp_all add: env_conversion_error_def)

lemma no_augmentation_completes: "status (main env_no_augmentation) = None"
  by (rule completes_like_example [OF setup_like_example])
     (simp_all add: env_no_augmentation_def)

lemma load_data_called:
  assumes "status (main env) = None"
  shows "LoadData \<in> set (trace (main env))"
proof -
  have "LoadData \<in> set (trace (after_load env))"
    by (simp add: after_load_def load_dataset_trace)
  then show ?thesis
    using set_mono_prefix [OF trace_from_load [OF main_completed(2) [OF assms]]] by blast
qed

subsection \<open>Calls of a completed run\<close>

lemma preprocess_calls:
  "status s = None \<Longrightarrow> status (preprocess s) = None \<Longrightarrow>
     trace (preprocess s)
       = trace s @ [Normalize, Normalize, ExpandDims, ExpandDims, ToCategorical, ToCategorical]"
  by (auto simp: preprocess_def Let_def prim split: outcome.splits)

lemma compile_model_calls:
  "status s = None \<Longrightarrow> status (compile_model env s) = None \<Longrightarrow>
     trace (compile_model env s) = trace s @ [Compile, Summary]"
  by (auto simp: compile_model_def Let_def prim split: outcome.splits)

lemma save_model_calls:
  "status s = None \<Longrightarrow> status (save_model env s) = None \<Longrightarrow>
     trace (save_model env s) = trace s @ [Makedirs ''models'', Save ''models/mnist_model.h5'']"
  by (auto simp: save_model_def Let_def prim split: outcome.splits option.splits)

lemma convert_model_calls:
  "trace (convert_model env s)
     = trace s @ ImportTfjs #
         (case import_tfjs env of
            Returns u \<Rightarrow> [SaveKerasModel ''static/model'']
          | Raises e \<Rightarrow> [])"
  by (auto simp: convert_model_def tfjs_save_keras_model_def Let_def prim write_shards_trace
      conversion_failed_trace split: outcome.splits option.splits prod.splits)

lemma load_model_model_unchanged_on_error:
  "trace (load_model env p s) = trace s @ [LoadModel p]"
  by (rule load_model_trace)

lemma evaluate_model_calls:
  assumes "status s = None" and "status (evaluate_model env s) = None"
  shows "trace (evaluate_model env s)
       = trace s @ [Evaluate (weights (model s)), LoadModel ''best_mnist_model.h5'',
                    Evaluate (weights (model (evaluate_model env s)))]"
proof -
  define s0 where "s0 = print (Text banner) (print (Text ''Evaluating model...'') (print (Text banner) s))"
  define s1 where "s1 = evaluate_test env s0"
  define s1' where "s1' = print (Fmt ''Test loss: {:.4f}'' [test_loss s1])
                        (print (Fmt ''Test accuracy: {:.4f} ({:.2f}%)''
                                  [test_acc s1, test_acc s1 * 100]) s1)"
  define s2 where "s2 = load_model env ''best_mnist_model.h5'' s1'"
  define s3 where "s3 = evaluate_test env s2"
  have e: "evaluate_model env s =
             (if status s1 \<noteq> None then s1 else if status s2 \<noteq> None then s2
              else if status s3 \<noteq> None then s3
              else print (Fmt ''Best model accuracy: {:.4f} ({:.2f}%)''
                                 [test_acc s3, test_acc s3 * 100]) s3)"
    by (simp add: evaluate_model_def Let_def s0_def s1_def s1'_def s2_def s3_def)
  have st: "status s1 = None" "status s2 = None" "status s3 = None"
    and ev: "evaluate_model env s = print (Fmt ''Best model accuracy: {:.4f} ({:.2f}%)''
                                 [test_acc s3, test_acc s3 * 100]) s3"
    using assms(2) unfolding e by (auto simp: print_fields split: if_splits)
  have t1: "trace s1 = trace s @ [Evaluate (weights (model s))]"
    by (simp add: s1_def evaluate_test_trace s0_def print_fields)
  have t2: "trace s2 = trace s1 @ [LoadModel ''best_mnist_model.h5'']"
    by (simp add: s2_def load_model_trace s1'_def print_fields)
  have t3: "trace s3 = trace s2 @ [Evaluate (weights (model s2))]"
    by (simp add: s3_def evaluate_test_trace)
  have m: "model (evaluate_model env s) = model s2"
    by (simp add: ev print_fields s3_def evaluate_test_model)
  show ?thesis
    by (simp add: ev print_fields t1 t2 t3 m [unfolded ev print_fields])
qed

lemma completed_trace:
  assumes "status (main env) = None"
  shows "trace (main env)
       = trace (after_setup env) @
         [LoadData, Normalize, Normalize, ExpandDims, ExpandDims, ToCategorical, ToCategorical,
          NewAugmentation, NewSequential (layers (after_create env)), Compile, Summary, Fit,
          Evaluate (weights (model (after_fit env))), LoadModel ''best_mnist_model.h5'',
          Evaluate (weights (model (main env))),
          Makedirs ''models'', Save ''models/mnist_model.h5'', ImportTfjs] @
         (case import_tfjs env of
            Returns u \<Rightarrow> [SaveKerasModel ''static/model'']
          | Raises e \<Rightarrow> [])"
proof -
  note c = main_completed [OF assms]
  have l: "trace (after_load env) = trace (after_setup env) @ [LoadData]"
    by (simp add: after_load_def load_dataset_trace)
  have p: "trace (after_preprocess env) = trace (after_load env) @
          [Normalize, Normalize, ExpandDims, ExpandDims, ToCategorical, ToCategorical]"
    using preprocess_calls [OF c(3) c(4) [unfolded after_preprocess_def]]
    by (simp add: after_preprocess_def)
  have a: "trace (after_augmentation env) = trace (after_preprocess env) @ [NewAugmentation]"
    by (simp add: after_augmentation_def build_augmentation_trace)
  have ly: "layers (after_create env)
      = build_layers (use_augmentation (after_augmentation env))
          (data_augmentation (after_augmentation env))"
    by (simp add: after_create_def create_model_def Let_def prim split: outcome.splits)
  have m: "trace (after_create env)
      = trace (after_augmentation env) @ [NewSequential (layers (after_create env))]"
    by (simp add: ly) (simp add: after_create_def create_model_trace)
  have k: "trace (after_compile env) = trace (after_create env) @ [Compile, Summary]"
    using compile_model_calls [OF c(6) c(7) [unfolded after_compile_def]]
    by (simp add: after_compile_def)
  have f: "trace (after_fit env) = trace (after_compile env) @ [Fit]"
    by (simp add: after_fit_def train_trace)
  have e: "trace (after_evaluate env) = trace (after_fit env) @
      [Evaluate (weights (model (after_fit env))), LoadModel ''best_mnist_model.h5'',
       Evaluate (weights (model (after_evaluate env)))]"
    using evaluate_model_calls [OF c(8) c(9) [unfolded after_evaluate_def]]
    by (simp add: after_evaluate_def)
  have s: "trace (after_save env) = trace (after_evaluate env) @
      [Makedirs ''models'', Save ''models/mnist_model.h5'']"
    using save_model_calls [OF c(9) c(10) [unfolded after_save_def]]
    by (simp add: after_save_def)
  have v: "trace (after_convert env) = trace (after_save env) @ ImportTfjs #
         (case import_tfjs env of
            Returns u \<Rightarrow> [SaveKerasModel ''static/model'']
          | Raises e \<Rightarrow> [])"
    by (simp add: after_convert_def convert_model_calls)
  have tm: "trace (main env) = trace (after_convert env)"
    by (simp add: c(1) report_trace)
  show ?thesis
    unfolding tm completed_run(5) [OF assms]
    by (simp add: v s e f k m a p l)
qed


subsection \<open>The head of the network and the architecture of the built model\<close>

lemma sum_list_exp_pos: "z \<noteq> [] \<Longrightarrow> 0 < sum_list (map exp (z :: real list))"
proof (induction z)
  case Nil
  then show ?case by simp
next
  case (Cons a z)
  show ?case
  proof (cases "z = []")
    case True
    then show ?thesis by simp
  next
    case False
    then have "0 < sum_list (map exp z)" by (rule Cons.IH)
    then show ?thesis by (simp add: add_pos_pos)
  qed
qed

lemma sum_list_divide: "sum_list (map (\<lambda>v. f v / c) xs) = sum_list (map f xs) / (c :: real)"
  by (induction xs) (simp_all add: add_divide_distrib)

lemma softmax_distribution:
  assumes "z \<noteq> []"
  shows "is_distribution (activate softmax z)" and "length (activate softmax z) = length z"
proof -
  have pos: "0 < sum_list (map exp z)" using assms by (rule sum_list_exp_pos)
  have "sum_list (activate softmax z) = 1"
    using pos by (simp add: sum_list_divide)
  moreover have "list_all (\<lambda>v. 0 \<le> v) (activate softmax z)"
    using pos by (simp add: list_all_iff less_imp_le)
  ultimately show "is_distribution (activate softmax z)"
    by (simp add: is_distribution_def)
  show "length (activate softmax z) = length z" by simp
qed

lemma softmax_head:
  assumes "length rows = 10" and "length biases = 10"
  shows "\<exists>y. layer_output (Dense 10 softmax) rows biases x = Some y \<and> length y = 10
             \<and> is_distribution y"
proof -
  define z where "z = map2 (\<lambda>row b. sum_list (map2 (*) row x) + b) rows biases"
  have len: "length z = 10" using assms by (simp add: z_def)
  then have ne: "z \<noteq> []" by auto
  have "layer_output (Dense 10 softmax) rows biases x = Some (activate softmax z)"
    using assms unfolding z_def by simp
  then show ?thesis
    using softmax_distribution [OF ne] len by simp
qed

lemma create_model_built:
  "new_sequential env = Returns w \<Longrightarrow>
     model (create_model env s)
       = \<lparr>arch = build_layers (use_augmentation s) (data_augmentation s), compiled = None,
          weights = w\<rparr>"
  by (simp add: create_model_def Let_def prim)

lemma create_model_layers:
  "layers (create_model env s) = build_layers (use_augmentation s) (data_augmentation s)"
  by (simp add: create_model_def Let_def prim split: outcome.splits)

lemma arch_after_create:
  assumes "new_sequential env = Returns w"
  shows "arch (model (create_model env (build_augmentation env' s)))
     = (case new_augmentation env' of
          Returns u \<Rightarrow> Input [28, 28, 1] # Sequential augmentation_layers # convolutional_blocks
        | Raises e \<Rightarrow> Input [28, 28, 1] # convolutional_blocks)"
proof -
  have "arch (model (create_model env (build_augmentation env' s)))
      = layers (create_model env (build_augmentation env' s))"
    by (simp add: create_model_built [OF assms] create_model_layers)
  then show ?thesis by (simp only: layers_after_create)
qed

lemma compile_model_arch: "arch (model (compile_model env s)) = arch (model s)"
  by (simp add: compile_model_def Let_def prim split: outcome.splits)

lemma completed_arch:
  assumes "status (main env) = None"
  shows "arch (model (main env)) = arch (model (after_create env))"
proof -
  note r = completed_run [OF assms]
  have "fs (after_fit env) ''best_mnist_model.h5''
         = Some (H5 ((model (after_fit env))\<lparr>weights :=
              new_weights (history (after_fit env) ! last (checkpoint_epochs (after_fit env)))\<rparr>))"
    using r(3,4) by (simp add: checkpoint_ok_def)
  then have "model (after_evaluate env) = (model (after_fit env))\<lparr>weights :=
              new_weights (history (after_fit env) ! last (checkpoint_epochs (after_fit env)))\<rparr>"
    using r(6) by simp
  then have a: "arch (model (main env)) = arch (model (after_fit env))"
    by (simp add: r(5))
  obtain w where "model (after_fit env) = (model (after_compile env))\<lparr>weights := w\<rparr>"
    using train_checkpoint [OF before_fit(1,2), of env env]
    unfolding after_fit_def [symmetric] by blast
  then have "arch (model (after_fit env)) = arch (model (after_compile env))" by simp
  then show ?thesis
    using a by (simp add: after_compile_def compile_model_arch)
qed

lemma model_topology_lemma:
  assumes "new_sequential env = Returns w"
  shows "arch (model (create_model env (build_augmentation env s)))
       = (case new_augmentation env of
            Returns u \<Rightarrow> Input [28, 28, 1] # Sequential augmentation_layers # convolutional_blocks
          | Raises e \<Rightarrow> Input [28, 28, 1] # convolutional_blocks)
   \<and> hd (arch (model (create_model env (build_augmentation env s)))) = Input [28, 28, 1]
   \<and> last (arch (model (create_model env (build_augmentation env s)))) = Dense 10 softmax
   \<and> output_shapes (arch (model (create_model env (build_augmentation env s)))) [28, 28, 1]
       = Some [10]
   \<and> (\<forall>rows biases x. length rows = 10 \<and> length biases = 10 \<longrightarrow>
         (\<exists>y. layer_output (last (arch (model (create_model env (build_augmentation env s)))))
                 rows biases x = Some y
              \<and> length y = 10 \<and> is_distribution y))
   \<and> (status (main env) = None \<longrightarrow>
         arch (model (main env))
           = (case new_augmentation env of
                Returns u \<Rightarrow>
                  Input [28, 28, 1] # Sequential augmentation_layers # convolutional_blocks
              | Raises e \<Rightarrow> Input [28, 28, 1] # convolutional_blocks))"
proof -
  define a where "a = arch (model (create_model env (build_augmentation env s)))"
  have c: "a = (case new_augmentation env of
            Returns u \<Rightarrow> Input [28, 28, 1] # Sequential augmentation_layers # convolutional_blocks
          | Raises e \<Rightarrow> Input [28, 28, 1] # convolutional_blocks)"
    unfolding a_def by (rule arch_after_create [OF assms])
  then have d: "a = Input [28, 28, 1] # convolutional_blocks
         \<or> a = Input [28, 28, 1] # Sequential augmentation_layers # convolutional_blocks"
    by (cases "new_augmentation env") simp_all
  have h: "hd a = Input [28, 28, 1]" using d by auto
  have l: "last a = Dense 10 softmax" using d by (auto simp: convolutional_blocks_def)
  have o: "output_shapes a [28, 28, 1] = Some [10]"
    using d plain_output_shape augmented_output_shape by metis
  have p: "\<forall>rows biases x. length rows = 10 \<and> length biases = 10 \<longrightarrow>
         (\<exists>y. layer_output (last a) rows biases x = Some y \<and> length y = 10 \<and> is_distribution y)"
    unfolding l using softmax_head by blast
  have m: "status (main env) = None \<longrightarrow>
         arch (model (main env))
           = (case new_augmentation env of
                Returns u \<Rightarrow>
                  Input [28, 28, 1] # Sequential augmentation_layers # convolutional_blocks
              | Raises e \<Rightarrow> Input [28, 28, 1] # convolutional_blocks)"
  proof
    assume st: "status (main env) = None"
    show "arch (model (main env))
           = (case new_augmentation env of
                Returns u \<Rightarrow>
                  Input [28, 28, 1] # Sequential augmentation_layers # convolutional_blocks
              | Raises e \<Rightarrow> Input [28, 28, 1] # convolutional_blocks)"
      using completed_arch [OF st] arch_after_create [OF assms, of env "after_preprocess env"]
      by (simp add: after_create_def after_augmentation_def)
  qed
  from c h l o p m show ?thesis unfolding a_def by blast
qed

subsection \<open>Command-line arguments\<close>

lemma memory_growth_loop_argv:
  "memory_growth_loop (env\<lparr>argv := a\<rparr>) gs s = memory_growth_loop env gs s"
  by (induction gs arbitrary: s) (simp_all cong: outcome.case_cong)

lemma fit_epochs_argv:
  "fit_epochs (env\<lparr>argv := a\<rparr>) cbs n epoch sf = fit_epochs env cbs n epoch sf"
proof (induction n arbitrary: epoch sf)
  case 0
  show ?case by (cases sf) simp
next
  case (Suc n)
  show ?case by (cases sf) (auto simp: Suc split: outcome.splits prod.splits)
qed

lemma stages_argv:
  "configure_gpu (env\<lparr>argv := a\<rparr>) = configure_gpu env"
  "load_dataset (env\<lparr>argv := a\<rparr>) = load_dataset env"
  "build_augmentation (env\<lparr>argv := a\<rparr>) = build_augmentation env"
  "create_model (env\<lparr>argv := a\<rparr>) = create_model env"
  "compile_model (env\<lparr>argv := a\<rparr>) = compile_model env"
  "train (env\<lparr>argv := a\<rparr>) = train env"
  "evaluate_model (env\<lparr>argv := a\<rparr>) = evaluate_model env"
  "save_model (env\<lparr>argv := a\<rparr>) = save_model env"
  "convert_model (env\<lparr>argv := a\<rparr>) = convert_model env"
  by (rule ext,
      simp add: configure_gpu_def load_dataset_def build_augmentation_def create_model_def
        compile_model_def train_def evaluate_model_def evaluate_test_def load_model_def
        save_model_def convert_model_def tfjs_save_keras_model_def initial_state_def
        memory_growth_loop_argv fit_epochs_argv Let_def
        cong: outcome.case_cong prod.case_cong option.case_cong if_cong)+

lemma initial_state_argv: "initial_state (env\<lparr>argv := a\<rparr>) = initial_state env"
  by (simp add: initial_state_def)

lemma main_argv: "main (env\<lparr>argv := a\<rparr>) = main env"
  by (simp add: main_def script_def stages_argv initial_state_argv)

subsection \<open>Failure of the conversion\<close>

lemma convert_model_failed:
  assumes "import_tfjs env = Raises e
         \<or> (import_tfjs env = Returns () \<and> snd (save_keras_model env) = Raises e)"
  shows "\<exists>s'. convert_model env s = conversion_failed e s'"
  using assms
  by (auto simp: convert_model_def tfjs_save_keras_model_def Let_def
      split: outcome.splits prod.splits)

lemma report_last_line:
  "last (stdout (report s)) = Text ''  3. Run 'npm run dev' to test the model''"
  by (simp add: report_def print_def)

lemma reached_conversion:
  assumes "ImportTfjs \<in> set (trace (main env))"
  shows "main env = report (after_convert env)" and "status (main env) = None"
    and "status (after_save env) = None" and "status (after_evaluate env) = None"
proof -
  have "S_convert \<in> set (stages_entered (trace (main env)))"
    using call_stage [OF assms] by simp
  note r = reached_convert [OF this]
  have c: "status (after_convert env) = None"
    using r(9) by (simp add: after_convert_def convert_model_frame)
  show "main env = report (after_convert env)"
    unfolding main_unfold using r c by simp
  then show "status (main env) = None" using c by (simp add: report_frame)
  show "status (after_save env) = None" "status (after_evaluate env) = None"
    by (fact r(9) r(8))+
qed

lemma conversion_failure:
  assumes "ImportTfjs \<in> set (trace (main env))"
    and "import_tfjs env = Raises e
         \<or> (import_tfjs env = Returns () \<and> snd (save_keras_model env) = Raises e)"
  shows "status (main env) = None
       \<and> Text (if is_ImportError e then ''tensorflowjs not found.''
               else ''Conversion failed: '' @ msg e) \<in> set (stdout (main env))
       \<and> Text ''  tensorflowjs_converter --input_format keras models/mnist_model.h5 static/model''
           \<in> set (stdout (main env))
       \<and> last (stdout (main env)) = Text ''  3. Run 'npm run dev' to test the model''
       \<and> fs (main env) ''models/mnist_model.h5'' = fs (after_save env) ''models/mnist_model.h5''
       \<and> fs (main env) ''models/mnist_model.h5'' = Some (H5 (model (main env)))"
proof -
  note r = reached_conversion [OF assms(1)]
  obtain s' where s': "after_convert env = conversion_failed e s'"
    using convert_model_failed [OF assms(2), of "after_save env"]
    by (auto simp: after_convert_def)
  have l1: "Text (if is_ImportError e then ''tensorflowjs not found.''
               else ''Conversion failed: '' @ msg e) \<in> set (stdout (main env))"
    unfolding r(1) s' using conversion_failed_log(2,3) [of e s']
    by (auto intro: report_stdout)
  have l2: "Text ''  tensorflowjs_converter --input_format keras models/mnist_model.h5 static/model''
           \<in> set (stdout (main env))"
    unfolding r(1) s' by (rule report_stdout [OF conversion_failed_log(1)])
  have f1: "fs (main env) ''models/mnist_model.h5'' = fs (after_save env) ''models/mnist_model.h5''"
    unfolding r(1) by (simp add: report_frame after_convert_def convert_model_fs)
  have f2: "fs (main env) ''models/mnist_model.h5'' = Some (H5 (model (main env)))"
    using completed_run(5,8) [OF r(2)] by simp
  show ?thesis
    using r(2) l1 l2 f1 f2 by (simp add: r(1) report_last_line)
qed

lemma no_tfjs_reached: "ImportTfjs \<in> set (trace (main env_no_tfjs))"
  by (simp add: completed_trace [OF no_tfjs_completes])

lemma conversion_error_reached: "ImportTfjs \<in> set (trace (main env_conversion_error))"
  by (simp add: completed_trace [OF conversion_error_completes])

subsection \<open>Failure of the GPU configuration\<close>






subsection \<open>Failure of the augmentation\<close>


lemma build_augmentation_log:
  "new_augmentation env = Raises e \<Longrightarrow>
     Text (''Data augmentation failed: '' @ msg e) \<in> set (stdout (build_augmentation env s))"
  by (simp add: build_augmentation_def Let_def prim)



subsection \<open>Facts about the example runs\<close>



lemma example_fit_weights:
  assumes "train_epoch env = train_epoch example_env"
    and "checkpoint_epochs s = []" and "history s = []"
  shows "weights (model (fit_epochs env callbacks 30 0
     (s, \<lparr>lr = 1 / 1000, rl_best = None, rl_wait = 0,
                     es_best = None, es_wait = 0, es_best_weights = None,
                     mc_best = None, stop_training = False\<rparr>))) = 3"
  using assms(2,3)
  by (simp add: eval_nat_numeral assms(1) example_env_def callbacks_def monitored_def
      improved_def Let_def prim)

lemma example_fitted_weights:
  assumes "status (main env) = None" and "train_epoch env = train_epoch example_env"
  shows "weights (model (after_fit env)) = 3" and "weights (model (main env)) = 3"
proof -
  note c = main_completed [OF assms(1)]
  have cfg: "compiled (model (after_compile env))
       = Some \<lparr>learning_rate = 1 / 1000, loss = ''categorical_crossentropy'',
               metrics = [''accuracy'']\<rparr>"
    using compile_model_config [of env "after_create env"] c(7) by (simp add: after_compile_def)
  define s1 where "s1 = called Fit
                 (print (Text banner)
                   (print (Text ''Training model (this may take 10-20 minutes on GPU)...'')
                     (print (Text banner) (after_compile env))))"
  have s1: "checkpoint_epochs s1 = []" "history s1 = []" "model s1 = model (after_compile env)"
    by (simp_all add: s1_def prim before_fit)
  have "after_fit env = fit_epochs env callbacks 30 0
     (s1, \<lparr>lr = 1 / 1000, rl_best = None, rl_wait = 0,
                     es_best = None, es_wait = 0, es_best_weights = None,
                     mc_best = None, stop_training = False\<rparr>)"
    unfolding after_fit_def train_def Let_def s1_def [symmetric] by (simp add: s1 cfg)
  with example_fit_weights [OF assms(2) s1(1,2)]
  show "weights (model (after_fit env)) = 3" by simp
  note h = example_history [OF assms]
  have "length (history (main env)) = 11"
    using h(1) [THEN arg_cong [where f = length]] by simp
  then have "new_weights (history (main env) ! 2) = map new_weights (history (main env)) ! 2"
    by simp
  then have "new_weights (history (main env) ! 2) = 3"
    by (simp add: h(1))
  then show "weights (model (main env)) = 3"
    using best_checkpoint [OF assms(1)] h(2) by simp
qed


subsection \<open>Claims about whole runs\<close>

text \<open>
  C1, as stated, fails: when the converter module cannot be imported the run completes,
  and the only files it has written are the checkpoint (three times, once per improving
  epoch) and the saved model; nothing is written under \<^verbatim>\<open>static/model\<close>.
\<close>

theorem three_artifacts_counterexample:
  "status (main env_no_tfjs) = None
   \<and> files_written (main env_no_tfjs)
       = [''best_mnist_model.h5'', ''best_mnist_model.h5'', ''best_mnist_model.h5'',
          ''models/mnist_model.h5'']"
proof -
  have t: "train_epoch env_no_tfjs = train_epoch example_env"
    by (simp add: env_no_tfjs_def)
  have "checkpoint_epochs (after_fit env_no_tfjs) = [0, 1, 2]"
    using example_history(2) [OF no_tfjs_completes t]
    by (simp add: completed_run(2) [OF no_tfjs_completes])
  moreover have "web_files env_no_tfjs = []"
    by (simp add: web_files_def env_no_tfjs_def)
  ultimately show ?thesis
    using completed_run(9) [OF no_tfjs_completes] no_tfjs_completes
    by (simp add: numeral_eq_Suc)
qed

text \<open>
  C1, amended. A run that completes has called the dataset loader, and the files it has
  written are, in this order: \<^verbatim>\<open>best_mnist_model.h5\<close>, once for each improving epoch and
  at least once; \<^verbatim>\<open>models/mnist_model.h5\<close>, once; and the files of the conversion,
  which are none when the converter cannot be imported, the weight shards under
  \<^verbatim>\<open>static/model/\<close> that the converter wrote when it raises, and those shards followed by
  \<^verbatim>\<open>static/model/model.json\<close> when it returns.
\<close>

theorem artifacts_written:
  assumes "status (main env) = None"
  shows "LoadData \<in> set (trace (main env))
       \<and> checkpoint_epochs (main env) \<noteq> []
       \<and> files_written (main env)
           = replicate (length (checkpoint_epochs (main env))) ''best_mnist_model.h5''
             @ ''models/mnist_model.h5'' # web_files env"
proof -
  note b = best_checkpoint [OF assms]
  note r = completed_run(2,9) [OF assms]
  have ne: "checkpoint_epochs (main env) \<noteq> []" using b by blast
  have fw: "files_written (main env)
           = replicate (length (checkpoint_epochs (main env))) ''best_mnist_model.h5''
             @ ''models/mnist_model.h5'' # web_files env"
    unfolding r(1) by (rule r(2))
  show ?thesis
    by (intro conjI) (fact load_data_called [OF assms] ne fw)+
qed

theorem artifacts_written_witness:
  "status (main example_env) = None
   \<and> LoadData \<in> set (trace (main example_env))
   \<and> files_written (main example_env)
       = [''best_mnist_model.h5'', ''best_mnist_model.h5'', ''best_mnist_model.h5'',
          ''models/mnist_model.h5'', ''static/model/group1-shard1of1.bin'',
          ''static/model/model.json'']"
proof -
  have "checkpoint_epochs (main example_env) = [0, 1, 2]"
    by (rule example_history(2) [OF example_completes refl])
  moreover have "web_files example_env
      = [''static/model/group1-shard1of1.bin'', ''static/model/model.json'']"
    by (simp add: web_files_def example_env_def)
  ultimately show ?thesis
    using artifacts_written [OF example_completes] example_completes
    by (simp add: numeral_eq_Suc)
qed

text \<open>
  C2. When the run reaches the import of the converter and the import raises, or the
  import returns and the conversion raises, the run completes: no exception propagates,
  the failure and the manual conversion command are in the output, the last line of the
  output is the last line the script prints, and \<^verbatim>\<open>models/mnist_model.h5\<close> holds what
  it held before the conversion block, the model the script saved.
\<close>

theorem conversion_failure_handled:
  assumes "ImportTfjs \<in> set (trace (main env))"
    and "import_tfjs env = Raises e
         \<or> (import_tfjs env = Returns () \<and> snd (save_keras_model env) = Raises e)"
  shows "status (main env) = None
       \<and> Text (if is_ImportError e then ''tensorflowjs not found.''
               else ''Conversion failed: '' @ msg e) \<in> set (stdout (main env))
       \<and> Text ''  tensorflowjs_converter --input_format keras models/mnist_model.h5 static/model''
           \<in> set (stdout (main env))
       \<and> last (stdout (main env)) = Text ''  3. Run 'npm run dev' to test the model''
       \<and> fs (main env) ''models/mnist_model.h5'' = fs (after_save env) ''models/mnist_model.h5''
       \<and> fs (main env) ''models/mnist_model.h5'' = Some (H5 (model (main env)))"
  by (rule conversion_failure [OF assms])

theorem conversion_failure_handled_witness:
  "ImportTfjs \<in> set (trace (main env_no_tfjs))
   \<and> import_tfjs env_no_tfjs = Raises (Exn ModuleNotFoundError ''No module named tensorflowjs'')
   \<and> status (main env_no_tfjs) = None
   \<and> Text ''tensorflowjs not found.'' \<in> set (stdout (main env_no_tfjs))
   \<and> fs (main env_no_tfjs) ''models/mnist_model.h5'' = Some (H5 (model (main env_no_tfjs)))
   \<and> ImportTfjs \<in> set (trace (main env_conversion_error))
   \<and> import_tfjs env_conversion_error = Returns ()
   \<and> snd (save_keras_model env_conversion_error) = Raises (Exn ValueError ''Unsupported layer'')
   \<and> status (main env_conversion_error) = None
   \<and> Text ''Conversion failed: Unsupported layer'' \<in> set (stdout (main env_conversion_error))
   \<and> fs (main env_conversion_error) ''models/mnist_model.h5''
       = Some (H5 (model (main env_conversion_error)))"
proof -
  have a: "import_tfjs env_no_tfjs
      = Raises (Exn ModuleNotFoundError ''No module named tensorflowjs'')"
    by (simp add: env_no_tfjs_def)
  have b: "import_tfjs env_conversion_error = Returns ()"
    "snd (save_keras_model env_conversion_error) = Raises (Exn ValueError ''Unsupported layer'')"
    by (simp_all add: env_conversion_error_def example_env_def)
  have a': "import_tfjs env_no_tfjs
        = Raises (Exn ModuleNotFoundError ''No module named tensorflowjs'')
      \<or> (import_tfjs env_no_tfjs = Returns ()
          \<and> snd (save_keras_model env_no_tfjs)
              = Raises (Exn ModuleNotFoundError ''No module named tensorflowjs''))"
    using a by simp
  have b': "import_tfjs env_conversion_error = Raises (Exn ValueError ''Unsupported layer'')
      \<or> (import_tfjs env_conversion_error = Returns ()
          \<and> snd (save_keras_model env_conversion_error)
              = Raises (Exn ValueError ''Unsupported layer''))"
    using b by simp
  note t1 = conversion_failure_handled [OF no_tfjs_reached a']
  note t2 = conversion_failure_handled [OF conversion_error_reached b']
  have i1: "is_ImportError (Exn ModuleNotFoundError ''No module named tensorflowjs'')"
    and i2: "\<not> is_ImportError (Exn ValueError ''Unsupported layer'')"
    by simp_all
  from t1 have c1: "status (main env_no_tfjs) = None"
    and f1: "fs (main env_no_tfjs) ''models/mnist_model.h5'' = Some (H5 (model (main env_no_tfjs)))"
    by blast+
  from t2 have c2: "status (main env_conversion_error) = None"
    and f2: "fs (main env_conversion_error) ''models/mnist_model.h5''
           = Some (H5 (model (main env_conversion_error)))"
    by blast+
  from t1 i1 have l1: "Text ''tensorflowjs not found.'' \<in> set (stdout (main env_no_tfjs))"
    by (simp only: if_True)
  from t2 i2 have l2: "Text ''Conversion failed: Unsupported layer''
      \<in> set (stdout (main env_conversion_error))"
    by (simp only: if_False exn.sel append.simps)
  show ?thesis
    by (intro conjI)
       (fact no_tfjs_reached a c1 l1 f1 conversion_error_reached b c2 l2 f2)+
qed









text \<open>
  C6. In a run that completes, the checkpoint was written at exactly the epochs whose
  validation accuracy was greater than that of every earlier epoch, and at least once;
  the checkpoint file holds the model that the script reloads; the file
  \<^verbatim>\<open>models/mnist_model.h5\<close> holds that same model; and its weights are those the last
  improving epoch left, whatever the later epochs did to the fitted model.
\<close>

theorem best_checkpoint_saved:
  assumes "status (main env) = None"
  shows "checkpoint_epochs (main env) = record_epochs (history (main env))
       \<and> checkpoint_epochs (main env) \<noteq> []
       \<and> fs (main env) ''best_mnist_model.h5'' = Some (H5 (model (main env)))
       \<and> fs (main env) ''models/mnist_model.h5'' = Some (H5 (model (main env)))
       \<and> weights (model (main env))
           = new_weights (history (main env) ! last (checkpoint_epochs (main env)))"
  by (rule best_checkpoint [OF assms])

theorem best_checkpoint_saved_witness:
  "status (main example_env) = None
   \<and> map new_weights (history (main example_env)) = [1, 2, 3, 4, 5, 6, 7, 8, 9, 10, 11]
   \<and> checkpoint_epochs (main example_env) = [0, 1, 2]
   \<and> record_epochs (history (main example_env)) = [0, 1, 2]
   \<and> weights (model (main example_env)) = 3
   \<and> fs (main example_env) ''best_mnist_model.h5'' = Some (H5 (model (main example_env)))
   \<and> fs (main example_env) ''models/mnist_model.h5'' = Some (H5 (model (main example_env)))"
proof -
  note h = example_history [OF example_completes refl]
  note w = example_fitted_weights(2) [OF example_completes refl]
  note t = best_checkpoint_saved [OF example_completes]
  have r: "record_epochs (history (main example_env)) = [0, 1, 2]"
    using t h(2) by simp
  from t have f1: "fs (main example_env) ''best_mnist_model.h5''
      = Some (H5 (model (main example_env)))"
    and f2: "fs (main example_env) ''models/mnist_model.h5''
      = Some (H5 (model (main example_env)))"
    by blast+
  show ?thesis
    by (intro conjI) (fact example_completes h r w f1 f2)+
qed

text \<open>
  C9. Two runs whose environments differ at most in the command-line arguments end in the
  same state: the same output, calls, files and variables.
\<close>

theorem cli_arguments_ignored:
  assumes "env1\<lparr>argv := []\<rparr> = env2\<lparr>argv := []\<rparr>"
  shows "main env1 = main env2"
proof -
  have "main env1 = main (env1\<lparr>argv := []\<rparr>)" by (simp only: main_argv)
  also have "\<dots> = main (env2\<lparr>argv := []\<rparr>)" by (simp only: assms)
  also have "\<dots> = main env2" by (simp only: main_argv)
  finally show ?thesis .
qed

theorem cli_arguments_ignored_witness:
  "(example_env\<lparr>argv := [''--epochs'', ''5'']\<rparr>)\<lparr>argv := []\<rparr> = example_env\<lparr>argv := []\<rparr>
   \<and> argv (example_env\<lparr>argv := [''--epochs'', ''5'']\<rparr>) \<noteq> argv example_env
   \<and> main (example_env\<lparr>argv := [''--epochs'', ''5'']\<rparr>) = main example_env"
proof -
  have e: "(example_env\<lparr>argv := [''--epochs'', ''5'']\<rparr>)\<lparr>argv := []\<rparr>
      = example_env\<lparr>argv := []\<rparr>"
    by simp
  have d: "argv (example_env\<lparr>argv := [''--epochs'', ''5'']\<rparr>) \<noteq> argv example_env"
    by (simp add: example_env_def)
  from cli_arguments_ignored [OF e] e d show ?thesis by blast
qed

text \<open>
  C10. Whenever \<^verbatim>\<open>keras.Sequential\<close> returns, the layers of the built model are the
  input layer of shape \<open>(28, 28, 1)\<close>, then the augmentation model if and only if its
  construction returned, then the convolutional blocks, which are the same in every run
  and end with \<^verbatim>\<open>Dense(10, activation='softmax')\<close>. The shape inferred for an input of
  shape \<open>(28, 28, 1)\<close> is \<open>(10)\<close>; whatever the ten weight rows, the ten biases and the
  input of the last layer are, its output over the reals has length 10, no negative entry
  and sum 1; and in a run that completes the saved model has these layers.
\<close>

theorem model_topology:
  assumes "new_sequential env = Returns w"
  shows "arch (model (create_model env (build_augmentation env s)))
       = (case new_augmentation env of
            Returns u \<Rightarrow> Input [28, 28, 1] # Sequential augmentation_layers # convolutional_blocks
          | Raises e \<Rightarrow> Input [28, 28, 1] # convolutional_blocks)
   \<and> hd (arch (model (create_model env (build_augmentation env s)))) = Input [28, 28, 1]
   \<and> last (arch (model (create_model env (build_augmentation env s)))) = Dense 10 softmax
   \<and> output_shapes (arch (model (create_model env (build_augmentation env s)))) [28, 28, 1]
       = Some [10]
   \<and> (\<forall>rows biases x. length rows = 10 \<and> length biases = 10 \<longrightarrow>
         (\<exists>y. layer_output (last (arch (model (create_model env (build_augmentation env s)))))
                 rows biases x = Some y
              \<and> length y = 10 \<and> is_distribution y))
   \<and> (status (main env) = None \<longrightarrow>
         arch (model (main env))
           = (case new_augmentation env of
                Returns u \<Rightarrow>
                  Input [28, 28, 1] # Sequential augmentation_layers # convolutional_blocks
              | Raises e \<Rightarrow> Input [28, 28, 1] # convolutional_blocks))"
  by (rule model_topology_lemma [OF assms])

theorem model_topology_witness:
  "new_sequential example_env = Returns 0
   \<and> arch (model (create_model example_env (build_augmentation example_env example_loaded)))
       = Input [28, 28, 1] # Sequential augmentation_layers # convolutional_blocks
   \<and> last (arch (model (create_model example_env
                          (build_augmentation example_env example_loaded))))
       = Dense 10 softmax
   \<and> layer_output (Dense 10 softmax) (replicate 10 []) (replicate 10 0) []
       = Some (replicate 10 (1 / 10))
   \<and> is_distribution (replicate 10 (1 / 10))
   \<and> status (main example_env) = None
   \<and> arch (model (main example_env))
       = Input [28, 28, 1] # Sequential augmentation_layers # convolutional_blocks
   \<and> new_sequential env_no_augmentation = Returns 0
   \<and> arch (model (main env_no_augmentation)) = Input [28, 28, 1] # convolutional_blocks"
proof -
  have n: "new_sequential example_env = Returns 0" by (simp add: example_env_def)
  have n': "new_sequential env_no_augmentation = Returns 0"
    by (simp add: env_no_augmentation_def example_env_def)
  have a: "new_augmentation example_env = Returns ()" by (simp add: example_env_def)
  have a': "new_augmentation env_no_augmentation = Raises (Exn InternalError ''CUDA error'')"
    by (simp add: env_no_augmentation_def)
  note t = model_topology [OF n, of example_loaded, unfolded a outcome.case]
  note t' = model_topology [OF n', of example_loaded, unfolded a' outcome.case]
  from t have c1: "arch (model (create_model example_env
                          (build_augmentation example_env example_loaded)))
       = Input [28, 28, 1] # Sequential augmentation_layers # convolutional_blocks"
    and c2: "last (arch (model (create_model example_env
                          (build_augmentation example_env example_loaded))))
       = Dense 10 softmax"
    by blast+
  have o: "layer_output (Dense 10 softmax) (replicate 10 []) (replicate 10 0) []
       = Some (replicate 10 (1 / 10))"
    by (simp add: numeral_eq_Suc)
  have "length (replicate 10 ([] :: real list)) = 10 \<and> length (replicate 10 (0 :: real)) = 10"
    by simp
  with t c2 o have d: "is_distribution (replicate 10 (1 / 10))"
    by (metis option.inject)
  from t example_completes have m: "arch (model (main example_env))
       = Input [28, 28, 1] # Sequential augmentation_layers # convolutional_blocks"
    by blast
  from t' no_augmentation_completes
  have m': "arch (model (main env_no_augmentation)) = Input [28, 28, 1] # convolutional_blocks"
    by blast
  show ?thesis
    by (intro conjI) (fact n c1 c2 o d example_completes m n' m')+
qed

end
